theory Spec2Isabelle
  imports Complex_Main
begin

section \<open>Strings of the source language\<close>

text \<open>
  A message is a Python \<open>str\<close>. It is modelled as a HOL string whose characters are the
  code points below 256; every character of the patterns, dictionaries and prompts of
  \<open>stock_agent.py\<close> lies in that range. Case conversion and the character classes
  \<open>\d\<close>, \<open>\s\<close>, \<open>\w\<close> are those of Python 3 on that range.
\<close>

definition code :: "char \<Rightarrow> nat" where
  "code c = of_char c"

definition lower_char :: "char \<Rightarrow> char" where
  "lower_char c =
     (if (65 \<le> code c \<and> code c \<le> 90) \<or> (192 \<le> code c \<and> code c \<le> 222 \<and> code c \<noteq> 215)
      then char_of (code c + 32) else c)"

definition lower :: "string \<Rightarrow> string" where
  "lower s = map lower_char s"

text \<open>
  \<open>str.upper\<close> maps the sharp s (223) to the two letters SS. The micro sign (181) and the
  y with diaeresis (255) have an upper case above 255; they stay as they are here, which
  changes nothing observable: the result is a word character outside \<open>A-Z\<close> either way.
\<close>

definition upper_char :: "char \<Rightarrow> string" where
  "upper_char c =
     (if code c = 223 then ''SS''
      else if (97 \<le> code c \<and> code c \<le> 122) \<or> (224 \<le> code c \<and> code c \<le> 254 \<and> code c \<noteq> 247)
      then [char_of (code c - 32)] else [c])"

definition upper :: "string \<Rightarrow> string" where
  "upper s = concat (map upper_char s)"

definition is_digit :: "char \<Rightarrow> bool" where
  "is_digit c \<longleftrightarrow> 48 \<le> code c \<and> code c \<le> 57"

definition is_space :: "char \<Rightarrow> bool" where
  "is_space c \<longleftrightarrow> (9 \<le> code c \<and> code c \<le> 13) \<or> (28 \<le> code c \<and> code c \<le> 32)
     \<or> code c = 133 \<or> code c = 160"

definition is_alpha :: "char \<Rightarrow> bool" where
  "is_alpha c \<longleftrightarrow> (65 \<le> code c \<and> code c \<le> 90) \<or> (97 \<le> code c \<and> code c \<le> 122)
     \<or> code c = 170 \<or> code c = 181 \<or> code c = 186
     \<or> (192 \<le> code c \<and> code c \<le> 214) \<or> (216 \<le> code c \<and> code c \<le> 246) \<or> 248 \<le> code c"

definition is_word :: "char \<Rightarrow> bool" where
  "is_word c \<longleftrightarrow> is_alpha c \<or> is_digit c \<or> c = CHR ''_''
     \<or> code c = 178 \<or> code c = 179 \<or> code c = 185 \<or> (188 \<le> code c \<and> code c \<le> 190)"

text \<open>\<open>sub in s\<close> on strings: \<open>sub\<close> occurs in \<open>s\<close> as a contiguous run of characters.\<close>

fun starts_with :: "string \<Rightarrow> string \<Rightarrow> bool" where
  "starts_with [] s = True"
| "starts_with (p # ps) [] = False"
| "starts_with (p # ps) (x # xs) = (p = x \<and> starts_with ps xs)"

fun contains :: "string \<Rightarrow> string \<Rightarrow> bool" where
  "contains sub [] = (sub = [])"
| "contains sub (x # xs) = (starts_with sub (x # xs) \<or> contains sub xs)"

definition strip :: "string \<Rightarrow> string" where
  "strip s = rev (dropWhile is_space (rev (dropWhile is_space s)))"

section \<open>Regular expressions of the \<open>re\<close> module\<close>

text \<open>
  Every pattern of the source is an alternation, at top level only, of sequences of
  single-character classes under a quantifier and of \<open>\b\<close> assertions. A regular
  expression is therefore a list of alternatives, each a list of pieces. The matcher
  follows the backtracking order of \<open>re\<close>: alternatives from left to right, quantifiers
  greedy.
\<close>

datatype cclass =
    Lit char
  | Digit
  | Space
  | Dot
  | Span char char
  | AnyOf "cclass list"
  | NoneOf "cclass list"

fun in_class :: "cclass \<Rightarrow> char \<Rightarrow> bool" where
  "in_class (Lit a) x = (x = a)"
| "in_class Digit x = is_digit x"
| "in_class Space x = is_space x"
| "in_class Dot x = (x \<noteq> CHR 0x0A)"
| "in_class (Span a b) x = (code a \<le> code x \<and> code x \<le> code b)"
| "in_class (AnyOf cs) x = list_ex (\<lambda>c. in_class c x) cs"
| "in_class (NoneOf cs) x = (\<not> list_ex (\<lambda>c. in_class c x) cs)"

datatype piece =
    One cclass
  | Star cclass
  | Plus cclass
  | Between cclass nat nat
  | WordBoundary

type_synonym regex = "piece list list"

definition lit :: "string \<Rightarrow> piece list" where
  "lit w = map (\<lambda>c. One (Lit c)) w"

definition run :: "cclass \<Rightarrow> string \<Rightarrow> nat" where
  "run c s = length (takeWhile (in_class c) s)"

definition word_opt :: "char option \<Rightarrow> bool" where
  "word_opt x = (case x of None \<Rightarrow> False | Some c \<Rightarrow> is_word c)"

definition first_char :: "string \<Rightarrow> char option" where
  "first_char s = (case s of [] \<Rightarrow> None | x # _ \<Rightarrow> Some x)"

text \<open>
  \<open>descend k lo n prev s\<close>: a greedy quantifier that may take between \<open>lo\<close> and \<open>n\<close>
  characters of \<open>s\<close> (all \<open>n\<close> first ones are in the class) tries \<open>n\<close>, then \<open>n - 1\<close>, ...,
  down to \<open>lo\<close>, and keeps the first count after which the rest of the pattern \<open>k\<close>
  matches. The result is the number of characters matched in all.
\<close>

fun descend :: "(char option \<Rightarrow> string \<Rightarrow> nat option) \<Rightarrow> nat \<Rightarrow> nat \<Rightarrow> char option \<Rightarrow> string \<Rightarrow> nat option" where
  "descend k lo 0 prev s = (if lo = 0 then k prev s else None)"
| "descend k lo (Suc n) prev s =
     (if Suc n < lo then None
      else (case k (Some (s ! n)) (drop (Suc n) s) of
              Some m \<Rightarrow> Some (Suc n + m)
            | None \<Rightarrow> descend k lo n prev s))"

primrec match_here :: "piece list \<Rightarrow> char option \<Rightarrow> string \<Rightarrow> nat option" where
  "match_here [] = (\<lambda>prev s. Some 0)"
| "match_here (p # ps) = (\<lambda>prev s.
     (case p of
        One c \<Rightarrow> descend (match_here ps) 1 (min 1 (run c s)) prev s
      | Star c \<Rightarrow> descend (match_here ps) 0 (run c s) prev s
      | Plus c \<Rightarrow> descend (match_here ps) 1 (run c s) prev s
      | Between c lo hi \<Rightarrow> descend (match_here ps) lo (min hi (run c s)) prev s
      | WordBoundary \<Rightarrow>
          if word_opt prev \<noteq> word_opt (first_char s) then match_here ps prev s else None))"

fun match_at :: "regex \<Rightarrow> char option \<Rightarrow> string \<Rightarrow> nat option" where
  "match_at [] prev s = None"
| "match_at (a # as) prev s =
     (case match_here a prev s of Some n \<Rightarrow> Some n | None \<Rightarrow> match_at as prev s)"

fun search_from :: "regex \<Rightarrow> char option \<Rightarrow> string \<Rightarrow> bool" where
  "search_from r prev [] = (match_at r prev [] \<noteq> None)"
| "search_from r prev (x # xs) = (match_at r prev (x # xs) \<noteq> None \<or> search_from r (Some x) xs)"

text \<open>\<open>re.search(r, s)\<close> as a truth value: is there a match anywhere in \<open>s\<close>.\<close>

definition re_search :: "regex \<Rightarrow> string \<Rightarrow> bool" where
  "re_search r s = search_from r None s"

text \<open>
  \<open>re.findall(r, s)\<close> for a pattern without groups: the matches from left to right, each
  search resuming where the last match ended. The counter is the number of characters of
  the last match still to be passed over.
\<close>

fun findall_from :: "regex \<Rightarrow> nat \<Rightarrow> char option \<Rightarrow> string \<Rightarrow> string list" where
  "findall_from r k prev [] = (if k = 0 \<and> match_at r prev [] \<noteq> None then [[]] else [])"
| "findall_from r (Suc k) prev (x # xs) = findall_from r k (Some x) xs"
| "findall_from r 0 prev (x # xs) =
     (case match_at r prev (x # xs) of
        None \<Rightarrow> findall_from r 0 (Some x) xs
      | Some n \<Rightarrow> take n (x # xs) # findall_from r (n - 1) (Some x) xs)"

definition re_findall :: "regex \<Rightarrow> string \<Rightarrow> string list" where
  "re_findall r s = findall_from r 0 None s"

text \<open>
  A piece is safe under \<open>str.lower\<close> when lowering the text cannot break a match of it:
  the class of a single character keeps every character it accepts, the class under a
  quantifier accepts a character exactly when it accepts its lower case, and there is no
  \<open>\b\<close>. Used to relate a match on the message to a match on the lowered message.
\<close>

definition lower_safe :: "piece \<Rightarrow> bool" where
  "lower_safe p =
     (case p of
        One c \<Rightarrow> (\<forall>x. in_class c x \<longrightarrow> in_class c (lower_char x))
      | Star c \<Rightarrow> (\<forall>x. in_class c (lower_char x) = in_class c x)
      | Plus c \<Rightarrow> (\<forall>x. in_class c (lower_char x) = in_class c x)
      | Between c lo hi \<Rightarrow> (\<forall>x. in_class c (lower_char x) = in_class c x)
      | WordBoundary \<Rightarrow> False)"

section \<open>The Symbol Resolver\<close>

text \<open>
  \<open>_extract_symbol_robust\<close>. The dictionary \<open>stock_mapping\<close> is a Python dict literal
  with distinct keys, iterated in insertion order: an association list in the order of
  the source.
\<close>

definition stock_mapping :: "(string \<times> string) list" where
  "stock_mapping =
     [(''APPLE'', ''AAPL''), (''AAPL'', ''AAPL''),
      (''TESLA'', ''TSLA''), (''TSLA'', ''TSLA''),
      (''MICROSOFT'', ''MSFT''), (''MSFT'', ''MSFT''),
      (''GOOGLE'', ''GOOGL''), (''GOOGL'', ''GOOGL''),
      (''AMAZON'', ''AMZN''), (''AMZN'', ''AMZN''),
      (''META'', ''META''), (''FACEBOOK'', ''META''),
      (''NETFLIX'', ''NFLX''), (''NFLX'', ''NFLX''),
      (''NVIDIA'', ''NVDA''), (''NVDA'', ''NVDA''),
      (''BITCOIN'', ''BTC''), (''BTC'', ''BTC''),
      (''ETHEREUM'', ''ETH''), (''ETH'', ''ETH'')]"

text \<open>The pattern \<open>\b[A-Z]{3,5}\b\<close>.\<close>

definition symbol_pattern :: regex where
  "symbol_pattern = [[WordBoundary, Between (Span (CHR ''A'') (CHR ''Z'')) 3 5, WordBoundary]]"

definition exclude_words :: "string list" where
  "exclude_words =
     [''THE'', ''AND'', ''FOR'', ''ARE'', ''BUT'', ''NOT'', ''YOU'', ''ALL'', ''CAN'', ''HAD'',
      ''HER'', ''WAS'', ''ONE'', ''OUR'', ''OUT'', ''DAY'', ''GET'', ''HAS'', ''HIM'', ''HIS'',
      ''HOW'', ''ITS'', ''MAY'', ''NEW'', ''NOW'', ''OLD'', ''SEE'', ''TWO'', ''WAY'', ''WHO'',
      ''BOY'', ''DID'', ''MAN'', ''MEN'', ''PUT'', ''SAY'', ''SHE'', ''TOO'', ''USE'']"

text \<open>Lines 509 to 512: the first entry of the dictionary whose key occurs in the text.\<close>

definition dictionary_match :: "string \<Rightarrow> (string \<times> string) option" where
  "dictionary_match message_upper =
     find (\<lambda>(key, symbol). contains key message_upper) stock_mapping"

text \<open>Lines 514 to 523: the first token of three to five capitals that is not excluded.\<close>

definition token_match :: "string \<Rightarrow> string option" where
  "token_match message_upper =
     find (\<lambda>symbol. symbol \<notin> set exclude_words \<and> 3 \<le> length symbol)
       (re_findall symbol_pattern message_upper)"

definition extract_symbol_robust :: "string \<Rightarrow> string option" where
  "extract_symbol_robust message =
     (let message_upper = upper message in
      case dictionary_match message_upper of
        Some (key, symbol) \<Rightarrow> Some symbol
      | None \<Rightarrow> token_match message_upper)"

section \<open>The Intent Classifier\<close>

text \<open>
  \<open>_decide_tool\<close>. A capability is named by the string the source returns; \<open>None\<close> is
  Python's \<open>None\<close>. The pattern lists are those of the source, in its order; the letters
  with an accent are written by their code points.
\<close>

definition math_patterns :: "regex list" where
  "math_patterns =
     [[[Plus Digit, Star Space,
        One (AnyOf [Lit (CHR ''+''), Lit (CHR ''-''), Lit (CHR ''*''), Lit (CHR ''/'')]),
        Star Space, Plus Digit]],
      [[Plus Digit, Star Space, One (Lit (CHR ''%'')), Star Space] @ lit ''of''
        @ [Star Space, Plus Digit]],
      [lit ''sqrt'' @ [Star Space, One (Lit (CHR ''(''))]],
      [lit ''sin'' @ [Star Space, One (Lit (CHR ''(''))],
       lit ''cos'' @ [Star Space, One (Lit (CHR ''(''))],
       lit ''tan'' @ [Star Space, One (Lit (CHR ''(''))]]]"

definition math_operators :: "string list" where
  "math_operators =
     [''+'', ''-'', ''*'', ''/'', ''%'', ''='', ''sqrt'', ''sin'', ''cos'', ''tan'', ''log'']"

definition price_patterns :: "regex list" where
  "price_patterns =
     [[lit ''precio'', lit ''price'', lit (''cotizaci'' @ [CHR 0xF3] @ ''n''), lit ''cuesta'',
       lit ''cost'', lit ''valor'', lit ''value''],
      [lit (''cu'' @ [CHR 0xE1] @ ''nto cuesta''), lit ''how much'',
       lit ''what'' @ [Star Dot] @ lit ''price''],
      [lit ''precio actual'', lit ''current price'']]"

definition crypto_words :: "string list" where
  "crypto_words = [''bitcoin'', ''btc'', ''ethereum'', ''eth'', ''crypto'', ''criptomoneda'']"

definition info_patterns :: "regex list" where
  "info_patterns =
     [[lit (''informaci'' @ [CHR 0xF3] @ ''n''), lit ''info'', lit ''detalles'', lit ''details'',
       lit ''market cap'', lit ''volumen'', lit ''volume''],
      [lit (''capitalizaci'' @ [CHR 0xF3] @ ''n''), lit ''capitalization'',
       lit ''52'' @ [Star Dot] @ lit ''week'', lit ''high'', lit ''low'']]"

definition historical_patterns :: "regex list" where
  "historical_patterns =
     [[lit (''hist'' @ [CHR 0xF3] @ ''rico''), lit ''historical'', lit ''ayer'', lit ''yesterday'',
       lit ''cambio'', lit ''change'', lit ''trend''],
      [lit ([CHR 0xFA] @ ''ltimo''), lit ''last'', lit ''semana'', lit ''week'', lit ''mes'',
       lit ''month'', lit (''a'' @ [CHR 0xF1] @ ''o''), lit ''year'']]"

definition average_patterns :: "regex list" where
  "average_patterns =
     [[lit ''promedio'', lit ''average'', lit ''media'', lit ''mean''],
      [lit ([CHR 0xFA] @ ''ltima semana''), lit ''last week'',
       lit ([CHR 0xFA] @ ''ltimos d'' @ [CHR 0xED] @ ''as''), lit ''last days'']]"

definition search_patterns :: "regex list" where
  "search_patterns =
     [[lit ''buscar'', lit ''search'', lit ''noticias'', lit ''news'', lit ''encontrar'',
       lit ''find''],
      [lit ([CHR 0xFA] @ ''ltimas noticias''), lit ''latest news'',
       lit (''informaci'' @ [CHR 0xF3] @ ''n sobre'')]]"

text \<open>\<open>for pattern in ps: if re.search(pattern, s): ...\<close> enters the body for some pattern.\<close>

definition any_match :: "regex list \<Rightarrow> string \<Rightarrow> bool" where
  "any_match ps s = list_ex (\<lambda>p. re_search p s) ps"

text \<open>Truth value of an optional string in \<open>if symbol:\<close>.\<close>

definition truthy :: "string option \<Rightarrow> bool" where
  "truthy x = (case x of None \<Rightarrow> False | Some s \<Rightarrow> s \<noteq> [])"

text \<open>Line 426, on the message as typed, and line 439, on the message in lower case.\<close>

definition has_math_operator :: "string \<Rightarrow> bool" where
  "has_math_operator message = list_ex (\<lambda>c. contains c message) math_operators"

definition mentions_crypto :: "string \<Rightarrow> bool" where
  "mentions_crypto message_lower = list_ex (\<lambda>crypto. contains crypto message_lower) crypto_words"

definition decide_tool :: "string \<Rightarrow> string option" where
  "decide_tool message =
     (let message_lower = lower message in
      if any_match math_patterns message_lower then Some ''mathematical_calculation''
      else if has_math_operator message then Some ''mathematical_calculation''
      else if any_match price_patterns message_lower then
        (if mentions_crypto message_lower
         then Some ''get_crypto_price'' else Some ''get_stock_price'')
      else if any_match info_patterns message_lower then Some ''get_stock_info''
      else if any_match historical_patterns message_lower then Some ''get_historical_data''
      else if any_match average_patterns message_lower then Some ''calculate_average_price''
      else if any_match search_patterns message_lower then Some ''web_search''
      else if truthy (extract_symbol_robust message) then Some ''get_stock_price''
      else None)"

section \<open>Numbers and their rendering\<close>

text \<open>
  Prices are IEEE 754 doubles in the source (\<open>numpy.float64\<close> in the primary adapters,
  Python \<open>float\<close> in the fallbacks). A double is modelled by its exact value, a rational,
  or one of the special values; every arithmetic operation computes the exact result and
  rounds it to the nearest double, ties to the even significand, as the hardware does.
\<close>

definition digit_char :: "int \<Rightarrow> char" where
  "digit_char d = char_of (48 + d)"

text \<open>The decimal digits of an integer that is not negative.\<close>

function show_pos :: "int \<Rightarrow> string" where
  "show_pos n = (if n < 10 then [digit_char n] else show_pos (n div 10) @ [digit_char (n mod 10)])"
  by pat_completeness auto
termination
  by (relation "measure nat") auto

declare show_pos.simps [simp del]

definition show_nat :: "nat \<Rightarrow> string" where
  "show_nat n = show_pos (int n)"

definition show_int :: "int \<Rightarrow> string" where
  "show_int i = (if i < 0 then ''-'' @ show_pos (- i) else show_pos i)"

definition round_half_even :: "rat \<Rightarrow> int" where
  "round_half_even x =
     (let q = \<lfloor>x\<rfloor>; f = x - of_int q in
      if f < 1 / 2 then q else if 1 / 2 < f then q + 1 else if even q then q else q + 1)"

text \<open>The format \<open>:.2f\<close> of a finite value.\<close>

definition fmt2 :: "rat \<Rightarrow> string" where
  "fmt2 x =
     (let r = round_half_even (\<bar>x\<bar> * 100) in
      (if x < 0 then ''-'' else []) @ show_pos (r div 100) @ ''.''
        @ [digit_char (r mod 100 div 10), digit_char (r mod 10)])"

datatype double = Finite rat | NegZero | NaN | PosInf | NegInf

text \<open>
  \<open>Finite x\<close> is the double of value \<open>x\<close>, \<open>Finite 0\<close> the zero of positive sign; the
  values the world hands out are doubles, that is, \<open>round_double x = Finite x\<close> below.
  The format \<open>:.2f\<close> rounds the exact value of the double, ties to even.
\<close>

definition fmt2_double :: "double \<Rightarrow> string" where
  "fmt2_double v =
     (case v of Finite x \<Rightarrow> fmt2 x | NegZero \<Rightarrow> ''-0.00'' | NaN \<Rightarrow> ''nan''
      | PosInf \<Rightarrow> ''inf'' | NegInf \<Rightarrow> ''-inf'')"

definition pow2 :: "int \<Rightarrow> rat" where
  "pow2 k = (if 0 \<le> k then 2 ^ nat k else 1 / 2 ^ nat (- k))"

function bit_length :: "int \<Rightarrow> int" where
  "bit_length n = (if n \<le> 0 then 0 else 1 + bit_length (n div 2))"
  by pat_completeness auto
termination
  by (relation "measure nat") auto

declare bit_length.simps [simp del]

text \<open>The exponent of the leading bit of a positive rational.\<close>

definition floor_log2 :: "rat \<Rightarrow> int" where
  "floor_log2 a =
     (let e = bit_length (fst (quotient_of a)) - bit_length (snd (quotient_of a)) in
      if pow2 e \<le> a then e else e - 1)"

definition signed_zero :: "bool \<Rightarrow> double" where
  "signed_zero neg = (if neg then NegZero else Finite 0)"

definition signed_inf :: "bool \<Rightarrow> double" where
  "signed_inf neg = (if neg then NegInf else PosInf)"

text \<open>
  Rounding to the nearest double: 53 bits of significand, the unit in the last place
  not below \<open>2 ^ - 1074\<close>, overflow to an infinity from \<open>2 ^ 1024\<close> on.
\<close>

definition round_double :: "rat \<Rightarrow> double" where
  "round_double x =
     (if x = 0 then Finite 0
      else
        (let a = \<bar>x\<bar>; e = floor_log2 a; q = max (e - 52) (- 1074);
             m = round_half_even (a / pow2 q) in
         if m = 0 then signed_zero (x < 0)
         else if 1023 < e \<or> (e = 1023 \<and> 2 ^ 53 \<le> m) then signed_inf (x < 0)
         else Finite ((if x < 0 then - 1 else 1) * of_int m * pow2 q)))"

definition sign_bit :: "double \<Rightarrow> bool" where
  "sign_bit a =
     (case a of Finite x \<Rightarrow> x < 0 | NegZero \<Rightarrow> True | NegInf \<Rightarrow> True
      | PosInf \<Rightarrow> False | NaN \<Rightarrow> False)"

definition is_zero :: "double \<Rightarrow> bool" where
  "is_zero a = (a = Finite 0 \<or> a = NegZero)"

definition is_inf :: "double \<Rightarrow> bool" where
  "is_inf a = (a = PosInf \<or> a = NegInf)"

definition value_of :: "double \<Rightarrow> rat" where
  "value_of a =
     (case a of Finite x \<Rightarrow> x | NegZero \<Rightarrow> 0 | NaN \<Rightarrow> 0 | PosInf \<Rightarrow> 0 | NegInf \<Rightarrow> 0)"

text \<open>Subtraction, division and multiplication of doubles, without traps.\<close>

definition fsub :: "double \<Rightarrow> double \<Rightarrow> double" where
  "fsub a b =
     (if a = NaN \<or> b = NaN then NaN
      else if is_inf a \<and> is_inf b then (if a = b then NaN else a)
      else if is_inf a then a
      else if is_inf b then signed_inf (\<not> sign_bit b)
      else if value_of a = value_of b then
        (if a = NegZero \<and> b = Finite 0 then NegZero else Finite 0)
      else round_double (value_of a - value_of b))"

definition fdiv :: "double \<Rightarrow> double \<Rightarrow> double" where
  "fdiv a b =
     (if a = NaN \<or> b = NaN then NaN
      else if is_inf a \<and> is_inf b then NaN
      else if is_zero a \<and> is_zero b then NaN
      else if is_inf a then signed_inf (sign_bit a \<noteq> sign_bit b)
      else if is_inf b then signed_zero (sign_bit a \<noteq> sign_bit b)
      else if is_zero b then signed_inf (sign_bit a \<noteq> sign_bit b)
      else if is_zero a then signed_zero (sign_bit a \<noteq> sign_bit b)
      else round_double (value_of a / value_of b))"

definition fmul :: "double \<Rightarrow> double \<Rightarrow> double" where
  "fmul a b =
     (if a = NaN \<or> b = NaN then NaN
      else if (is_zero a \<and> is_inf b) \<or> (is_inf a \<and> is_zero b) then NaN
      else if is_inf a \<or> is_inf b then signed_inf (sign_bit a \<noteq> sign_bit b)
      else if is_zero a \<or> is_zero b then signed_zero (sign_bit a \<noteq> sign_bit b)
      else round_double (value_of a * value_of b))"

text \<open>
  \<open>((latest - previous) / previous) * 100\<close> on \<open>numpy.float64\<close> values, line 83: a
  zero divisor does not raise, the quotient is \<open>nan\<close> or an infinity.
\<close>

definition np_change_percent :: "double \<Rightarrow> double \<Rightarrow> double" where
  "np_change_percent latest previous = fmul (fdiv (fsub latest previous) previous) (Finite 100)"

section \<open>Exceptions, external calls and the world\<close>

text \<open>
  An exception is modelled by the text \<open>str(e)\<close> of an instance of \<open>Exception\<close>. A
  computation returns the list of the external calls it made, in order, and either the
  exception it raised or its value. The \<open>print\<close> calls of the source are not modelled.
\<close>

datatype py_exception = Exception (str: string)

datatype call =
    Sleep nat
  | YfInfo string
  | YfHistory string string
  | LoadEnvFile
  | HttpGet string
  | DdgsText string
  | LlmInvoke string

type_synonym 'a io = "call list \<times> (py_exception + 'a)"

definition return_io :: "'a \<Rightarrow> 'a io" where
  "return_io x = ([], Inr x)"

definition raise_io :: "py_exception \<Rightarrow> 'a io" where
  "raise_io e = ([], Inl e)"

definition perform :: "call \<Rightarrow> py_exception + 'a \<Rightarrow> 'a io" where
  "perform c outcome = ([c], outcome)"

definition bind_io :: "'a io \<Rightarrow> ('a \<Rightarrow> 'b io) \<Rightarrow> 'b io" where
  "bind_io m f =
     (case m of
        (t, Inl e) \<Rightarrow> (t, Inl e)
      | (t, Inr x) \<Rightarrow> (case f x of (t', r) \<Rightarrow> (t @ t', r)))"

text \<open>\<open>try: m  except Exception as e: h e\<close>.\<close>

definition try_except :: "'a io \<Rightarrow> (py_exception \<Rightarrow> 'a io) \<Rightarrow> 'a io" where
  "try_except m h =
     (case m of
        (t, Inr x) \<Rightarrow> (t, Inr x)
      | (t, Inl e) \<Rightarrow> (case h e of (t', r) \<Rightarrow> (t @ t', r)))"

text \<open>
  The world holds the outcome of every external call: \<open>Inl e\<close> when the call raises \<open>e\<close>.
  \<^item> \<open>yf_info w s\<close>: \<open>yf.Ticker(s).info\<close>, a dict whose values are held as the text an
    f-string renders for them.
  \<^item> \<open>yf_history w s p\<close>: the column \<open>Close\<close> of \<open>yf.Ticker(s).history(period=p)\<close>.
  \<^item> \<open>series_mean w xs\<close>: what the method \<open>mean()\<close> of pandas returns on a column of
    values \<open>xs\<close>.
  \<^item> \<open>alpha_vantage_key w\<close>: \<open>self._load_env_file().get("ALPHA_VANTAGE_API_KEY")\<close>.
  \<^item> \<open>av_global_quote w url\<close>: \<open>requests.get(url, timeout=10).json()\<close> and the test of
    line 228: \<open>None\<close> when the test fails, else the dict \<open>data["Global Quote"]\<close>.
  \<^item> \<open>av_overview w url\<close>: the same request, \<open>None\<close> when the test of line 267 fails, else
    the dict \<open>data\<close>.
  \<^item> \<open>av_time_series w url\<close>: the same request and lines 312 to 321: the closes of the
    first entry whose key contains \<open>Time Series\<close>, by descending date, as \<open>float\<close> reads
    them; the empty list when no such entry exists or it is empty.
  \<^item> \<open>av_daily w url\<close>: the same for the entry \<open>Time Series (Daily)\<close>, lines 355 to 357.
  \<^item> \<open>py_sum w xs\<close>: what the builtin \<open>sum\<close> returns on a non-empty list of floats (the
    order and the compensation of its additions depend on the interpreter).
  \<^item> \<open>av_exchange_rate w url\<close>: the same request, \<open>None\<close> when the test of line 399
    fails, else the dict \<open>data["Realtime Currency Exchange Rate"]\<close>.
  \<^item> \<open>ddgs_text w q\<close>: \<open>list(ddgs.text(q, max_results=3))\<close> as pairs of title and body.
  \<^item> \<open>py_eval w e\<close>: Python's \<open>eval\<close> of \<open>e\<close> under the allowed names, the value held
    as the text an f-string renders for it.
  \<^item> \<open>llm_invoke w m\<close>: \<open>self.llm.invoke(m)\<close> and line 618, which reads its text.
\<close>

record world =
  yf_info :: "string \<Rightarrow> py_exception + (string \<rightharpoonup> string)"
  yf_history :: "string \<Rightarrow> string \<Rightarrow> py_exception + double list"
  series_mean :: "double list \<Rightarrow> double"
  alpha_vantage_key :: "py_exception + string option"
  av_global_quote :: "string \<Rightarrow> py_exception + (string \<rightharpoonup> string) option"
  av_overview :: "string \<Rightarrow> py_exception + (string \<rightharpoonup> string) option"
  av_time_series :: "string \<Rightarrow> py_exception + double list"
  av_daily :: "string \<Rightarrow> py_exception + double list"
  py_sum :: "double list \<Rightarrow> double"
  av_exchange_rate :: "string \<Rightarrow> py_exception + (string \<rightharpoonup> string) option"
  ddgs_text :: "string \<Rightarrow> py_exception + (string \<times> string) list"
  py_eval :: "string \<Rightarrow> py_exception + string"
  llm_invoke :: "string \<Rightarrow> py_exception + string"

text \<open>\<open>d.get(k, default)\<close>.\<close>

definition dict_get :: "('k \<rightharpoonup> 'v) \<Rightarrow> 'k \<Rightarrow> 'v \<Rightarrow> 'v" where
  "dict_get d k dflt = (case d k of None \<Rightarrow> dflt | Some v \<Rightarrow> v)"

text \<open>The test of every primary handler: \<open>"429" in str(e) or "Too Many Requests" in str(e)\<close>.\<close>

definition rate_limited :: "py_exception \<Rightarrow> bool" where
  "rate_limited e \<longleftrightarrow> contains ''429'' (str e) \<or> contains ''Too Many Requests'' (str e)"

section \<open>The fallback adapters\<close>

definition av_query :: "string \<Rightarrow> string \<Rightarrow> string \<Rightarrow> string" where
  "av_query function symbol api_key =
     ''https://www.alphavantage.co/query?function='' @ function @ ''&symbol='' @ symbol
       @ ''&apikey='' @ api_key"

text \<open>
  Lines 218 to 221, shared by the five fallbacks: the key is read, and \<open>not api_key\<close> holds
  for \<open>None\<close> and for the empty string.
\<close>

definition with_api_key :: "world \<Rightarrow> string \<Rightarrow> (string \<Rightarrow> string io) \<Rightarrow> string io" where
  "with_api_key w symbol body =
     bind_io (perform LoadEnvFile (alpha_vantage_key w)) (\<lambda>api_key.
       case api_key of
         None \<Rightarrow> return_io (''Alpha Vantage API key not configured for '' @ symbol)
       | Some k \<Rightarrow>
           if k = [] then return_io (''Alpha Vantage API key not configured for '' @ symbol)
           else body k)"

definition get_stock_price_alpha_vantage :: "world \<Rightarrow> string \<Rightarrow> string io" where
  "get_stock_price_alpha_vantage w symbol =
     try_except
       (with_api_key w symbol (\<lambda>api_key.
          let url = av_query ''GLOBAL_QUOTE'' symbol api_key in
          bind_io (perform (HttpGet url) (av_global_quote w url)) (\<lambda>data.
            case data of
              Some quote \<Rightarrow>
                return_io (''Current price of '' @ upper symbol @ '' (Alpha Vantage): $''
                  @ dict_get quote ''05. price'' ''N/A'')
            | None \<Rightarrow> return_io (''No data available for '' @ symbol @ '' from Alpha Vantage''))))
       (\<lambda>e. return_io (''Error fetching price from Alpha Vantage for '' @ symbol @ '': '' @ str e))"

definition get_stock_info_alpha_vantage :: "world \<Rightarrow> string \<Rightarrow> string io" where
  "get_stock_info_alpha_vantage w symbol =
     try_except
       (with_api_key w symbol (\<lambda>api_key.
          let url = av_query ''OVERVIEW'' symbol api_key in
          bind_io (perform (HttpGet url) (av_overview w url)) (\<lambda>found.
            case found of
              Some data \<Rightarrow>
                return_io (''Stock Information for '' @ upper symbol @ '' (Alpha Vantage):'' @ [CHR 0x0A]
                  @ ''Current Price: $'' @ dict_get data ''PriceToBookRatio'' ''N/A'' @ [CHR 0x0A]
                  @ ''Market Cap: $'' @ dict_get data ''MarketCapitalization'' ''N/A'' @ [CHR 0x0A]
                  @ ''Volume: '' @ dict_get data ''Volume'' ''N/A'' @ [CHR 0x0A]
                  @ ''52 Week High: $'' @ dict_get data ''52WeekHigh'' ''N/A'' @ [CHR 0x0A]
                  @ ''52 Week Low: $'' @ dict_get data ''52WeekLow'' ''N/A'' @ [CHR 0x0A]
                  @ ''Sector: '' @ dict_get data ''Sector'' ''N/A'' @ [CHR 0x0A]
                  @ ''Industry: '' @ dict_get data ''Industry'' ''N/A'' @ [CHR 0x0A])
            | None \<Rightarrow>
                return_io (''No detailed data available for '' @ symbol @ '' from Alpha Vantage''))))
       (\<lambda>e. return_io (''Error fetching detailed info from Alpha Vantage for '' @ symbol @ '': ''
              @ str e))"

definition function_map :: "(string \<times> string) list" where
  "function_map =
     [(''1d'', ''TIME_SERIES_INTRADAY''), (''5d'', ''TIME_SERIES_INTRADAY''),
      (''1mo'', ''TIME_SERIES_MONTHLY''), (''3mo'', ''TIME_SERIES_MONTHLY''),
      (''6mo'', ''TIME_SERIES_MONTHLY''), (''1y'', ''TIME_SERIES_MONTHLY''),
      (''2y'', ''TIME_SERIES_MONTHLY''), (''5y'', ''TIME_SERIES_MONTHLY''),
      (''10y'', ''TIME_SERIES_MONTHLY''), (''ytd'', ''TIME_SERIES_MONTHLY''),
      (''max'', ''TIME_SERIES_MONTHLY'')]"

text \<open>
  The same quotient on Python floats, which \<open>float(...)\<close> returns in the fallback: a zero
  divisor raises \<open>ZeroDivisionError\<close>.
\<close>

definition py_change_percent :: "double \<Rightarrow> double \<Rightarrow> py_exception + double" where
  "py_change_percent latest previous =
     (if is_zero previous then Inl (Exception ''float division by zero'')
      else Inr (fmul (fdiv (fsub latest previous) previous) (Finite 100)))"

definition get_historical_data_alpha_vantage :: "world \<Rightarrow> string \<Rightarrow> string \<Rightarrow> string io" where
  "get_historical_data_alpha_vantage w symbol period =
     try_except
       (with_api_key w symbol (\<lambda>api_key.
          let function = dict_get (map_of function_map) period ''TIME_SERIES_MONTHLY'';
              url = av_query function symbol api_key in
          bind_io (perform (HttpGet url) (av_time_series w url)) (\<lambda>closes.
            case closes of
              latest_close # previous_close # _ \<Rightarrow>
                bind_io ([], py_change_percent latest_close previous_close) (\<lambda>change_percent.
                  return_io (''Historical data for '' @ upper symbol @ '' ('' @ period
                    @ '') - Alpha Vantage:'' @ [CHR 0x0A]
                    @ ''Latest Close: $'' @ fmt2_double latest_close @ [CHR 0x0A]
                    @ ''Previous Close: $'' @ fmt2_double previous_close @ [CHR 0x0A]
                    @ ''Change: '' @ fmt2_double change_percent @ ''%'' @ [CHR 0x0A]))
            | _ \<Rightarrow>
                return_io (''No historical data available for '' @ symbol
                  @ '' from Alpha Vantage''))))
       (\<lambda>e. return_io (''Error fetching historical data from Alpha Vantage for '' @ symbol @ '': ''
              @ str e))"

text \<open>The slice \<open>xs[:k]\<close>: a negative \<open>k\<close> counts from the end.\<close>

definition py_take :: "int \<Rightarrow> 'a list \<Rightarrow> 'a list" where
  "py_take k xs = (if 0 \<le> k then take (nat k) xs else take (nat (int (length xs) + k)) xs)"

text \<open>\<open>sum(prices) / len(prices)\<close>, lines 367 and 368, on a non-empty list.\<close>

definition average :: "world \<Rightarrow> double list \<Rightarrow> double" where
  "average w prices = fdiv (py_sum w prices) (Finite (of_nat (length prices)))"

definition calculate_average_price_alpha_vantage :: "world \<Rightarrow> string \<Rightarrow> int \<Rightarrow> string io" where
  "calculate_average_price_alpha_vantage w symbol days =
     try_except
       (with_api_key w symbol (\<lambda>api_key.
          let url = av_query ''TIME_SERIES_DAILY'' symbol api_key in
          bind_io (perform (HttpGet url) (av_daily w url)) (\<lambda>closes.
            let prices = py_take (min days (int (length closes))) closes in
            if prices \<noteq> [] then
              return_io (''Average price of '' @ upper symbol @ '' over last ''
                @ show_nat (length prices) @ '' days (Alpha Vantage): $''
                @ fmt2_double (average w prices))
            else
              return_io (''No data available for calculating average of '' @ symbol
                @ '' from Alpha Vantage''))))
       (\<lambda>e. return_io (''Error calculating average from Alpha Vantage for '' @ symbol @ '': ''
              @ str e))"

definition crypto_symbols :: "(string \<times> string) list" where
  "crypto_symbols = [(''BTC'', ''BTC''), (''ETH'', ''ETH''), (''ADA'', ''ADA''), (''DOGE'', ''DOGE'')]"

definition get_crypto_price_alpha_vantage :: "world \<Rightarrow> string \<Rightarrow> string io" where
  "get_crypto_price_alpha_vantage w symbol =
     try_except
       (with_api_key w symbol (\<lambda>api_key.
          let crypto_symbol = dict_get (map_of crypto_symbols) (upper symbol) (upper symbol);
              url = ''https://www.alphavantage.co/query?function=CURRENCY_EXCHANGE_RATE&from_currency=''
                      @ crypto_symbol @ ''&to_currency=USD&apikey='' @ api_key in
          bind_io (perform (HttpGet url) (av_exchange_rate w url)) (\<lambda>data.
            case data of
              Some exchange_rate \<Rightarrow>
                return_io (''Current price of '' @ upper symbol @ '' (Alpha Vantage): $''
                  @ dict_get exchange_rate ''5. Exchange Rate'' ''N/A'')
            | None \<Rightarrow>
                return_io (''No crypto data available for '' @ symbol @ '' from Alpha Vantage''))))
       (\<lambda>e. return_io (''Error fetching crypto price from Alpha Vantage for '' @ symbol @ '': ''
              @ str e))"

section \<open>The primary adapters\<close>

text \<open>
  The tool functions of \<open>_create_tools\<close>. Each sleeps two seconds, asks Yahoo Finance, and
  in its handler turns to the fallback on a rate-limit text.
\<close>

definition get_stock_price :: "world \<Rightarrow> string \<Rightarrow> string io" where
  "get_stock_price w symbol =
     try_except
       (bind_io (perform (Sleep 2) (Inr ())) (\<lambda>_.
        bind_io (perform (YfInfo (upper symbol)) (yf_info w (upper symbol))) (\<lambda>info.
          return_io (''Current price of '' @ upper symbol @ '': $''
            @ dict_get info ''currentPrice'' (dict_get info ''regularMarketPrice'' ''N/A'')))))
       (\<lambda>e. if rate_limited e then get_stock_price_alpha_vantage w symbol
            else return_io (''Error fetching price for '' @ symbol @ '': '' @ str e))"

definition get_stock_info :: "world \<Rightarrow> string \<Rightarrow> string io" where
  "get_stock_info w symbol =
     try_except
       (bind_io (perform (Sleep 2) (Inr ())) (\<lambda>_.
        bind_io (perform (YfInfo (upper symbol)) (yf_info w (upper symbol))) (\<lambda>info.
          return_io (''Stock Information for '' @ upper symbol @ '':'' @ [CHR 0x0A]
            @ ''Current Price: $'' @ dict_get info ''currentPrice'' ''N/A'' @ [CHR 0x0A]
            @ ''Previous Close: $'' @ dict_get info ''previousClose'' ''N/A'' @ [CHR 0x0A]
            @ ''Market Cap: $'' @ dict_get info ''marketCap'' ''N/A'' @ [CHR 0x0A]
            @ ''Volume: '' @ dict_get info ''volume'' ''N/A'' @ [CHR 0x0A]
            @ ''52 Week High: $'' @ dict_get info ''fiftyTwoWeekHigh'' ''N/A'' @ [CHR 0x0A]
            @ ''52 Week Low: $'' @ dict_get info ''fiftyTwoWeekLow'' ''N/A'' @ [CHR 0x0A]))))
       (\<lambda>e. if rate_limited e then get_stock_info_alpha_vantage w symbol
            else return_io (''Error fetching info for '' @ symbol @ '': '' @ str e))"

text \<open>
  Lines 81 to 88 on a non-empty column of closes: the report of the latest close, the
  previous close and the change between them.
\<close>

definition latest_price :: "double list \<Rightarrow> double" where
  "latest_price closes = last closes"

definition previous_price :: "double list \<Rightarrow> double" where
  "previous_price closes =
     (if 1 < length closes then closes ! (length closes - 2) else latest_price closes)"

definition change_text :: "double list \<Rightarrow> string" where
  "change_text closes =
     fmt2_double (np_change_percent (latest_price closes) (previous_price closes))"

definition historical_report :: "string \<Rightarrow> string \<Rightarrow> double list \<Rightarrow> string" where
  "historical_report symbol period closes =
     ''Historical data for '' @ upper symbol @ '' ('' @ period @ ''):'' @ [CHR 0x0A]
       @ ''Latest Close: $'' @ fmt2_double (latest_price closes) @ [CHR 0x0A]
       @ ''Previous Close: $'' @ fmt2_double (previous_price closes) @ [CHR 0x0A]
       @ ''Change: '' @ change_text closes @ ''%'' @ [CHR 0x0A]"

definition get_historical_data :: "world \<Rightarrow> string \<Rightarrow> string \<Rightarrow> string io" where
  "get_historical_data w symbol period =
     try_except
       (bind_io (perform (Sleep 2) (Inr ())) (\<lambda>_.
        bind_io (perform (YfHistory (upper symbol) period) (yf_history w (upper symbol) period))
          (\<lambda>closes.
            if closes = [] then return_io (''No historical data available for '' @ upper symbol)
            else return_io (historical_report symbol period closes))))
       (\<lambda>e. if rate_limited e then get_historical_data_alpha_vantage w symbol period
            else return_io (''Error fetching historical data for '' @ symbol @ '': '' @ str e))"

definition calculate_average_price :: "world \<Rightarrow> string \<Rightarrow> int \<Rightarrow> string io" where
  "calculate_average_price w symbol days =
     try_except
       (bind_io (perform (Sleep 2) (Inr ())) (\<lambda>_.
        let period = show_int days @ ''d'' in
        bind_io (perform (YfHistory (upper symbol) period) (yf_history w (upper symbol) period))
          (\<lambda>closes.
            if closes = [] then return_io (''No data available for '' @ upper symbol)
            else return_io (''Average price of '' @ upper symbol @ '' over last '' @ show_int days
                   @ '' days: $'' @ fmt2_double (series_mean w closes)))))
       (\<lambda>e. if rate_limited e then calculate_average_price_alpha_vantage w symbol days
            else return_io (''Error calculating average for '' @ symbol @ '': '' @ str e))"

definition get_crypto_price :: "world \<Rightarrow> string \<Rightarrow> string io" where
  "get_crypto_price w symbol =
     try_except
       (bind_io (perform (Sleep 2) (Inr ())) (\<lambda>_.
        let crypto_symbol = upper symbol @ ''-USD'' in
        bind_io (perform (YfInfo crypto_symbol) (yf_info w crypto_symbol)) (\<lambda>info.
          return_io (''Current price of '' @ upper symbol @ '': $''
            @ dict_get info ''currentPrice'' (dict_get info ''regularMarketPrice'' ''N/A'')))))
       (\<lambda>e. if rate_limited e then get_crypto_price_alpha_vantage w symbol
            else return_io (''Error fetching crypto price for '' @ symbol @ '': '' @ str e))"

fun search_lines :: "nat \<Rightarrow> (string \<times> string) list \<Rightarrow> string" where
  "search_lines i [] = []"
| "search_lines i ((title, body) # rs) =
     show_nat i @ ''. '' @ title @ [CHR 0x0A] @ ''   '' @ body @ [CHR 0x0A, CHR 0x0A]
       @ search_lines (Suc i) rs"

definition web_search :: "world \<Rightarrow> string \<Rightarrow> string io" where
  "web_search w query =
     try_except
       (bind_io (perform (DdgsText query) (ddgs_text w query)) (\<lambda>results.
          if results = [] then return_io ''No search results found''
          else return_io (''Search results:'' @ [CHR 0x0A] @ search_lines 1 results)))
       (\<lambda>e. return_io (''Error performing web search: '' @ str e))"

section \<open>The calculation capability\<close>

text \<open>
  \<open>mathematical_calculation\<close> hands the expression to Python's \<open>eval\<close>. What \<open>eval\<close>
  returns for an expression is the world's \<open>py_eval\<close>, with one case decided here: an
  expression made only of decimal integers, names and the operators \<open>+ - * / %\<close>, in
  which a complete operand is followed at once by a name or a number, is no expression of
  Python, and CPython raises \<open>SyntaxError\<close> with the text \<open>invalid syntax\<close>.
  The lexer gives \<open>None\<close> on anything outside that fragment (brackets, strings, floats,
  keywords, a leading zero), which leaves the expression to \<open>py_eval\<close>.
\<close>

datatype token = NUMBER | NAME string | OP char

datatype lex_mode = Idle | InZero | InNumber | InName string

definition reserved_names :: "string list" where
  "reserved_names =
     [''False'', ''None'', ''True'', ''and'', ''as'', ''assert'', ''async'', ''await'', ''break'',
      ''class'', ''continue'', ''def'', ''del'', ''elif'', ''else'', ''except'', ''finally'',
      ''for'', ''from'', ''global'', ''if'', ''import'', ''in'', ''is'', ''lambda'', ''nonlocal'',
      ''not'', ''or'', ''pass'', ''raise'', ''return'', ''try'', ''while'', ''with'', ''yield'',
      ''match'', ''case'', ''type'', ''_'', ''print'', ''exec'']"

definition is_name_start :: "char \<Rightarrow> bool" where
  "is_name_start c \<longleftrightarrow> (65 \<le> code c \<and> code c \<le> 90) \<or> (97 \<le> code c \<and> code c \<le> 122)
     \<or> c = CHR ''_''"

definition finish :: "lex_mode \<Rightarrow> token list option" where
  "finish mode =
     (case mode of
        Idle \<Rightarrow> Some []
      | InZero \<Rightarrow> Some [NUMBER]
      | InNumber \<Rightarrow> Some [NUMBER]
      | InName n \<Rightarrow> if n \<in> set reserved_names then None else Some [NAME n])"

definition emit :: "token list option \<Rightarrow> token list option \<Rightarrow> token list option" where
  "emit a b = (case a of None \<Rightarrow> None | Some xs \<Rightarrow> map_option (\<lambda>ys. xs @ ys) b)"

fun lex :: "lex_mode \<Rightarrow> string \<Rightarrow> token list option" where
  "lex mode [] = finish mode"
| "lex (InName n) (c # cs) =
     (if is_name_start c \<or> is_digit c then lex (InName (n @ [c])) cs
      else if c = CHR '' '' \<or> c = CHR 0x09 then emit (finish (InName n)) (lex Idle cs)
      else if c \<in> set ''+-*/%'' then emit (finish (InName n)) (emit (Some [OP c]) (lex Idle cs))
      else None)"
| "lex InNumber (c # cs) =
     (if is_digit c then lex InNumber cs
      else if c = CHR '' '' \<or> c = CHR 0x09 then emit (Some [NUMBER]) (lex Idle cs)
      else if c \<in> set ''+-*/%'' then emit (Some [NUMBER, OP c]) (lex Idle cs)
      else None)"
| "lex InZero (c # cs) =
     (if c = CHR '' '' \<or> c = CHR 0x09 then emit (Some [NUMBER]) (lex Idle cs)
      else if c \<in> set ''+-*/%'' then emit (Some [NUMBER, OP c]) (lex Idle cs)
      else None)"
| "lex Idle (c # cs) =
     (if c = CHR '' '' \<or> c = CHR 0x09 then lex Idle cs
      else if c = CHR ''0'' then lex InZero cs
      else if is_digit c then lex InNumber cs
      else if is_name_start c then lex (InName [c]) cs
      else if c \<in> set ''+-*/%'' then emit (Some [OP c]) (lex Idle cs)
      else None)"

text \<open>
  \<open>juxtaposed True ts\<close>: reading \<open>ts\<close> as an expression, the parser meets a name or a
  number where an operator or the end is due. The flag tells whether an operand is due.
\<close>

fun juxtaposed :: "bool \<Rightarrow> token list \<Rightarrow> bool" where
  "juxtaposed due [] = False"
| "juxtaposed True (NUMBER # ts) = juxtaposed False ts"
| "juxtaposed True (NAME n # ts) = juxtaposed False ts"
| "juxtaposed True (OP c # ts) = ((c = CHR ''+'' \<or> c = CHR ''-'') \<and> juxtaposed True ts)"
| "juxtaposed False (NUMBER # ts) = True"
| "juxtaposed False (NAME n # ts) = True"
| "juxtaposed False (OP c # ts) = juxtaposed True ts"

definition python_eval :: "world \<Rightarrow> string \<Rightarrow> py_exception + string" where
  "python_eval w expression =
     (case lex Idle expression of
        Some ts \<Rightarrow>
          if juxtaposed True ts then Inl (Exception ''invalid syntax (<string>, line 1)'')
          else py_eval w expression
      | None \<Rightarrow> py_eval w expression)"

definition mathematical_calculation :: "world \<Rightarrow> string \<Rightarrow> string io" where
  "mathematical_calculation w expression =
     try_except
       (bind_io ([], python_eval w expression) (\<lambda>result. return_io (''Result: '' @ result)))
       (\<lambda>e. return_io (''Error in calculation: '' @ str e))"

section \<open>The Expression Extractor\<close>

text \<open>
  Lines 593 to 606 of \<open>chat\<close>: the first pattern with a match on the message as typed
  decides; of its matches the first of greatest length is kept, stripped.
\<close>

definition chat_math_patterns :: "regex list" where
  "chat_math_patterns =
     [[[Plus Digit, Star Space,
        One (AnyOf [Lit (CHR ''+''), Lit (CHR ''-''), Lit (CHR ''*''), Lit (CHR ''/'')]),
        Star Space, Plus Digit]],
      [[Plus Digit, Star Space, One (Lit (CHR ''%'')), Star Space] @ lit ''of''
        @ [Star Space, Plus Digit]],
      [lit ''sqrt'' @ [Star Space, One (Lit (CHR ''('')), Plus (NoneOf [Lit (CHR '')'')]),
        One (Lit (CHR '')''))]],
      [lit ''sin'' @ [Star Space, One (Lit (CHR ''('')), Plus (NoneOf [Lit (CHR '')'')]),
         One (Lit (CHR '')''))],
       lit ''cos'' @ [Star Space, One (Lit (CHR ''('')), Plus (NoneOf [Lit (CHR '')'')]),
         One (Lit (CHR '')''))],
       lit ''tan'' @ [Star Space, One (Lit (CHR ''('')), Plus (NoneOf [Lit (CHR '')'')]),
         One (Lit (CHR '')''))]],
      [[Plus (AnyOf [Digit, Lit (CHR ''+''), Lit (CHR ''-''), Lit (CHR ''*''), Lit (CHR ''/''),
          Lit (CHR ''(''), Lit (CHR '')''), Lit (CHR ''.''), Space])]]]"

text \<open>\<open>max(matches, key=len)\<close> on a non-empty list: the first of the longest.\<close>

fun longest_from :: "string \<Rightarrow> string list \<Rightarrow> string" where
  "longest_from best [] = best"
| "longest_from best (m # ms) = longest_from (if length best < length m then m else best) ms"

fun first_matches :: "regex list \<Rightarrow> string \<Rightarrow> string list option" where
  "first_matches [] message = None"
| "first_matches (p # ps) message =
     (case re_findall p message of
        [] \<Rightarrow> first_matches ps message
      | m # ms \<Rightarrow> Some (m # ms))"

definition extract_expression :: "string \<Rightarrow> string option" where
  "extract_expression message =
     (case first_matches chat_math_patterns message of
        None \<Rightarrow> None
      | Some [] \<Rightarrow> None
      | Some (m # ms) \<Rightarrow> Some (strip (longest_from m ms)))"

section \<open>The Dialogue Orchestrator\<close>

definition tool_names :: "string list" where
  "tool_names =
     [''get_stock_price'', ''get_stock_info'', ''get_historical_data'',
      ''calculate_average_price'', ''get_crypto_price'', ''web_search'',
      ''mathematical_calculation'']"

definition specify_symbol_or_crypto :: string where
  "specify_symbol_or_crypto =
     ''Por favor especifica el s'' @ [CHR 0xED] @ ''mbolo de la acci'' @ [CHR 0xF3]
       @ ''n o criptomoneda (ej: Apple, Tesla, Bitcoin, AAPL, TSLA)''"

definition specify_symbol :: string where
  "specify_symbol =
     ''Por favor especifica el s'' @ [CHR 0xED] @ ''mbolo de la acci'' @ [CHR 0xF3]
       @ ''n (ej: Apple, Tesla, AAPL, TSLA)''"

definition specify_expression :: string where
  "specify_expression =
     ''Por favor proporciona una expresi'' @ [CHR 0xF3] @ ''n matem'' @ [CHR 0xE1]
       @ ''tica v'' @ [CHR 0xE1] @ ''lida (ej: 2+2, 15% of 250)''"

text \<open>
  The body of the \<open>if tool_func:\<close> of \<open>chat\<close>, lines 566 to 614, for a name found in the
  registry; \<open>tool_func\<close> is the function registered under that name. A name outside the
  four branches would leave \<open>result\<close> unassigned at line 614.
\<close>

definition run_tool :: "world \<Rightarrow> string \<Rightarrow> string \<Rightarrow> string io" where
  "run_tool w tool_name message =
     (if tool_name \<in> set [''get_stock_price'', ''get_stock_info'', ''get_crypto_price''] then
        (let symbol = extract_symbol_robust message in
         if truthy symbol then
           (let s = (case symbol of Some x \<Rightarrow> x | None \<Rightarrow> []) in
            if tool_name = ''get_stock_price'' then get_stock_price w s
            else if tool_name = ''get_stock_info'' then get_stock_info w s
            else get_crypto_price w s)
         else return_io specify_symbol_or_crypto)
      else if tool_name \<in> set [''get_historical_data'', ''calculate_average_price''] then
        (let symbol = extract_symbol_robust message in
         if truthy symbol then
           (let s = (case symbol of Some x \<Rightarrow> x | None \<Rightarrow> []) in
            if tool_name = ''get_historical_data'' then get_historical_data w s ''1mo''
            else calculate_average_price w s 7)
         else return_io specify_symbol)
      else if tool_name = ''web_search'' then web_search w message
      else if tool_name = ''mathematical_calculation'' then
        (let expression = extract_expression message in
         if truthy expression then
           mathematical_calculation w (case expression of Some x \<Rightarrow> x | None \<Rightarrow> [])
         else return_io specify_expression)
      else raise_io (Exception ''local variable 'result' referenced before assignment''))"

definition ask_llm :: "world \<Rightarrow> string \<Rightarrow> string io" where
  "ask_llm w message = perform (LlmInvoke message) (llm_invoke w message)"

definition chat_body :: "world \<Rightarrow> string \<Rightarrow> string io" where
  "chat_body w message =
     (let tool_name = decide_tool message in
      if truthy tool_name then
        (let name = (case tool_name of Some x \<Rightarrow> x | None \<Rightarrow> []) in
         if name \<in> set tool_names then run_tool w name message
         else ask_llm w message)
      else ask_llm w message)"

definition chat :: "world \<Rightarrow> string \<Rightarrow> string io" where
  "chat w message =
     try_except (chat_body w message)
       (\<lambda>e. return_io (''Error processing your request: '' @ str e))"


section \<open>Two worlds to run the program in\<close>

text \<open>In \<open>offline_world\<close> every external call raises and no key is configured.\<close>

definition offline_world :: world where
  "offline_world =
     \<lparr> yf_info = (\<lambda>s. Inl (Exception ''offline'')),
       yf_history = (\<lambda>s p. Inl (Exception ''offline'')),
       series_mean = (\<lambda>xs. NaN),
       alpha_vantage_key = Inr None,
       av_global_quote = (\<lambda>u. Inl (Exception ''offline'')),
       av_overview = (\<lambda>u. Inl (Exception ''offline'')),
       av_time_series = (\<lambda>u. Inl (Exception ''offline'')),
       av_daily = (\<lambda>u. Inl (Exception ''offline'')),
       py_sum = (\<lambda>xs. NaN),
       av_exchange_rate = (\<lambda>u. Inl (Exception ''offline'')),
       ddgs_text = (\<lambda>q. Inl (Exception ''offline'')),
       py_eval = (\<lambda>e. Inl (Exception ''offline'')),
       llm_invoke = (\<lambda>m. Inl (Exception ''offline'')) \<rparr>"

text \<open>
  In \<open>demo_world\<close> Yahoo Finance is rate-limited for AAPL and BTC-USD, has the closes
  100.0 and 113.625 for TSLA, a single close of zero for MSFT, of -5.0 for META and of
  120.0 for NVDA; Alpha
  Vantage has a key and answers, except for exchange rates, where it raises; the
  completion provider answers \<open>Hello!\<close>.
\<close>

definition too_many :: py_exception where
  "too_many = Exception ''429 Client Error: Too Many Requests''"

definition demo_world :: world where
  "demo_world =
     \<lparr> yf_info = (\<lambda>s. if s = ''AAPL'' \<or> s = ''BTC-USD'' then Inl too_many
                      else Inr [''currentPrice'' \<mapsto> ''250.5'']),
       yf_history = (\<lambda>s p. if s = ''AAPL'' then Inl too_many
                      else if s = ''TSLA'' then Inr [Finite 100, Finite (909 / 8)]
                      else if s = ''MSFT'' then Inr [Finite 0]
                      else if s = ''META'' then Inr [Finite (- 5)]
                      else if s = ''NVDA'' then Inr [Finite 120]
                      else Inr []),
       series_mean = (\<lambda>xs. Finite 2),
       alpha_vantage_key = Inr (Some ''demo''),
       av_global_quote = (\<lambda>u. Inr (Some [''05. price'' \<mapsto> ''189.50''])),
       av_overview = (\<lambda>u. Inr None),
       av_time_series = (\<lambda>u. Inr [Finite 110, Finite 100]),
       av_daily = (\<lambda>u. Inr [Finite 3, Finite 2, Finite 1]),
       py_sum = (\<lambda>xs. Finite 6),
       av_exchange_rate = (\<lambda>u. Inl (Exception ''429 from the fallback'')),
       ddgs_text = (\<lambda>q. Inr []),
       py_eval = (\<lambda>e. if e = ''2+2'' then Inr ''4'' else Inl (Exception ''not modelled'')),
       llm_invoke = (\<lambda>m. Inr ''Hello!'') \<rparr>"

section \<open>Every capability returns a text\<close>

lemma try_except_returns:
  assumes "\<And>e. \<exists>s. snd (h e) = Inr s"
  shows "\<exists>s. snd (try_except m h) = Inr s"
proof (cases m)
  case (Pair t r)
  show ?thesis
  proof (cases r)
    case (Inl e)
    obtain s where "snd (h e) = Inr s" using assms by blast
    with Pair Inl show ?thesis by (cases "h e") (auto simp: try_except_def)
  next
    case (Inr x)
    with Pair show ?thesis by (simp add: try_except_def)
  qed
qed

lemma return_io_returns: "\<exists>s. snd (return_io x) = Inr s"
  by (simp add: return_io_def)

lemma fallback_price_returns: "\<exists>s. snd (get_stock_price_alpha_vantage w symbol) = Inr s"
  unfolding get_stock_price_alpha_vantage_def by (rule try_except_returns) (rule return_io_returns)

lemma fallback_info_returns: "\<exists>s. snd (get_stock_info_alpha_vantage w symbol) = Inr s"
  unfolding get_stock_info_alpha_vantage_def by (rule try_except_returns) (rule return_io_returns)

lemma fallback_historical_returns:
  "\<exists>s. snd (get_historical_data_alpha_vantage w symbol period) = Inr s"
  unfolding get_historical_data_alpha_vantage_def
  by (rule try_except_returns) (rule return_io_returns)

lemma fallback_average_returns:
  "\<exists>s. snd (calculate_average_price_alpha_vantage w symbol days) = Inr s"
  unfolding calculate_average_price_alpha_vantage_def
  by (rule try_except_returns) (rule return_io_returns)

lemma fallback_crypto_returns: "\<exists>s. snd (get_crypto_price_alpha_vantage w symbol) = Inr s"
  unfolding get_crypto_price_alpha_vantage_def by (rule try_except_returns) (rule return_io_returns)

lemma get_stock_price_returns: "\<exists>s. snd (get_stock_price w symbol) = Inr s"
  unfolding get_stock_price_def
  by (rule try_except_returns) (simp add: fallback_price_returns return_io_returns)

lemma get_stock_info_returns: "\<exists>s. snd (get_stock_info w symbol) = Inr s"
  unfolding get_stock_info_def
  by (rule try_except_returns) (simp add: fallback_info_returns return_io_returns)

lemma get_historical_data_returns: "\<exists>s. snd (get_historical_data w symbol period) = Inr s"
  unfolding get_historical_data_def
  by (rule try_except_returns) (simp add: fallback_historical_returns return_io_returns)

lemma calculate_average_price_returns: "\<exists>s. snd (calculate_average_price w symbol days) = Inr s"
  unfolding calculate_average_price_def
  by (rule try_except_returns) (simp add: fallback_average_returns return_io_returns)

lemma get_crypto_price_returns: "\<exists>s. snd (get_crypto_price w symbol) = Inr s"
  unfolding get_crypto_price_def
  by (rule try_except_returns) (simp add: fallback_crypto_returns return_io_returns)

lemma web_search_returns: "\<exists>s. snd (web_search w query) = Inr s"
  unfolding web_search_def by (rule try_except_returns) (rule return_io_returns)

lemma mathematical_calculation_returns: "\<exists>s. snd (mathematical_calculation w expression) = Inr s"
  unfolding mathematical_calculation_def by (rule try_except_returns) (rule return_io_returns)

lemma registered_tool_returns:
  "name \<in> set tool_names \<Longrightarrow> \<exists>s. snd (run_tool w name message) = Inr s"
  by (auto simp: tool_names_def run_tool_def Let_def return_io_def
        get_stock_price_returns get_stock_info_returns get_crypto_price_returns
        get_historical_data_returns calculate_average_price_returns web_search_returns
        mathematical_calculation_returns)

section \<open>The orchestrator never raises\<close>

text \<open>
  Claim C1. For every message and every world, \<open>chat\<close> returns a string and raises
  nothing: what its body raises is turned into the text
  \<open>Error processing your request: ...\<close>, what its body returns is returned as it is, and
  a failing completion call in particular ends as that error text. Every capability of
  the registry returns a text itself, whatever its external calls do, so that a failing
  adapter never reaches the handler of \<open>chat\<close>.
\<close>

theorem chat_never_raises:
  "(\<exists>s. snd (chat w message) = Inr s)
   \<and> (\<forall>e. snd (chat_body w message) = Inl e \<longrightarrow>
          snd (chat w message) = Inr (''Error processing your request: '' @ str e))
   \<and> (\<forall>s. snd (chat_body w message) = Inr s \<longrightarrow> snd (chat w message) = Inr s)
   \<and> (\<forall>e. \<not> truthy (decide_tool message) \<and> llm_invoke w message = Inl e \<longrightarrow>
          chat w message
            = ([LlmInvoke message], Inr (''Error processing your request: '' @ str e)))
   \<and> (\<forall>name \<in> set tool_names. \<exists>s. snd (run_tool w name message) = Inr s)"
proof (intro conjI allI impI ballI)
  fix name assume "name \<in> set tool_names"
  then show "\<exists>s. snd (run_tool w name message) = Inr s" by (rule registered_tool_returns)
next
  show "\<exists>s. snd (chat w message) = Inr s"
    unfolding chat_def by (rule try_except_returns) (rule return_io_returns)
next
  fix e assume "snd (chat_body w message) = Inl e"
  then show "snd (chat w message) = Inr (''Error processing your request: '' @ str e)"
    by (cases "chat_body w message") (simp add: chat_def try_except_def return_io_def)
next
  fix s assume "snd (chat_body w message) = Inr s"
  then show "snd (chat w message) = Inr s"
    by (cases "chat_body w message") (simp add: chat_def try_except_def)
next
  fix e assume "\<not> truthy (decide_tool message) \<and> llm_invoke w message = Inl e"
  then show "chat w message
      = ([LlmInvoke message], Inr (''Error processing your request: '' @ str e))"
    by (simp add: chat_def chat_body_def ask_llm_def perform_def try_except_def return_io_def)
qed

theorem chat_never_raises_witness:
  "snd (chat_body offline_world ''Hi'') = Inl (Exception ''offline'')
   \<and> chat offline_world ''Hi''
       = ([LlmInvoke ''Hi''], Inr ''Error processing your request: offline'')"
proof -
  have b: "snd (chat_body offline_world ''Hi'') = Inl (Exception ''offline'')"
    by code_simp
  have t: "\<not> truthy (decide_tool ''Hi'') \<and> llm_invoke offline_world ''Hi'' = Inl (Exception ''offline'')"
    by code_simp
  from chat_never_raises [of offline_world "''Hi''"] t
  have "chat offline_world ''Hi''
      = ([LlmInvoke ''Hi''], Inr (''Error processing your request: '' @ str (Exception ''offline'')))"
    by blast
  with b show ?thesis by simp
qed

section \<open>The dictionary of the Symbol Resolver\<close>

lemma find_first_index:
  "i < length xs \<Longrightarrow> P (xs ! i) \<Longrightarrow> (\<forall>j<i. \<not> P (xs ! j)) \<Longrightarrow> find P xs = Some (xs ! i)"
proof (induction xs arbitrary: i)
  case Nil
  then show ?case by simp
next
  case (Cons x xs)
  show ?case
  proof (cases i)
    case 0
    with Cons.prems show ?thesis by simp
  next
    case (Suc k)
    with Cons.prems have "\<not> P x" by auto
    moreover have "find P xs = Some (xs ! k)"
    proof (rule Cons.IH)
      show "k < length xs" using Cons.prems Suc by simp
      show "P (xs ! k)" using Cons.prems Suc by simp
      show "\<forall>j<k. \<not> P (xs ! j)" using Cons.prems(3) Suc by auto
    qed
    ultimately show ?thesis using Suc by simp
  qed
qed

text \<open>
  Claim C10. The dictionary is matched on the upper-cased message by plain containment,
  in the order of the source, before any token is looked at: when the key at position
  \<open>i\<close> occurs in the text, anywhere, also inside a longer word, and no key at an earlier
  position does, the resolver returns the ticker of that key.
\<close>

theorem dictionary_first_key_wins:
  assumes "i < length stock_mapping"
    and "contains (fst (stock_mapping ! i)) (upper message)"
    and "\<forall>j<i. \<not> contains (fst (stock_mapping ! j)) (upper message)"
  shows "extract_symbol_robust message = Some (snd (stock_mapping ! i))"
proof -
  let ?P = "\<lambda>(key, symbol). contains key (upper message)"
  have "find ?P stock_mapping = Some (stock_mapping ! i)"
  proof (rule find_first_index)
    show "i < length stock_mapping" by (rule assms(1))
    show "?P (stock_mapping ! i)" using assms(2) by (simp add: case_prod_beta)
    show "\<forall>j<i. \<not> ?P (stock_mapping ! j)" using assms(3) by (simp add: case_prod_beta)
  qed
  then show ?thesis
    by (simp add: extract_symbol_robust_def dictionary_match_def case_prod_beta)
qed

theorem dictionary_first_key_wins_witness:
  "extract_symbol_robust ''Tesla and Apple together'' = Some ''AAPL''
   \<and> extract_symbol_robust ''together'' = Some ''ETH''"
proof -
  have a: "(0::nat) < length stock_mapping" by code_simp
  have b: "contains (fst (stock_mapping ! 0)) (upper ''Tesla and Apple together'')" by code_simp
  have c: "snd (stock_mapping ! 0) = ''AAPL''" by code_simp
  have d: "extract_symbol_robust ''together'' = Some ''ETH''" by code_simp
  from dictionary_first_key_wins [OF a b] c d show ?thesis by simp
qed

section \<open>No symbol, no adapter\<close>

text \<open>
  Claim C8. When the classifier names a capability that takes a symbol and the resolver
  finds none, \<open>chat\<close> returns the fixed prompt of that group of capabilities and makes no
  external call at all: the trace is empty in every world.
\<close>

theorem no_symbol_prompt:
  assumes "decide_tool message = Some tool_name"
    and "extract_symbol_robust message = None"
  shows "(tool_name \<in> set [''get_stock_price'', ''get_stock_info'', ''get_crypto_price'']
            \<longrightarrow> chat w message = ([], Inr specify_symbol_or_crypto))
       \<and> (tool_name \<in> set [''get_historical_data'', ''calculate_average_price'']
            \<longrightarrow> chat w message = ([], Inr specify_symbol))"
  using assms
  by (auto simp: chat_def chat_body_def run_tool_def truthy_def tool_names_def
       try_except_def return_io_def)

theorem no_symbol_prompt_witness:
  "chat demo_world ''prices'' = ([], Inr specify_symbol_or_crypto)
   \<and> chat demo_world ''yesterday'' = ([], Inr specify_symbol)"
proof -
  have a: "decide_tool ''prices'' = Some ''get_stock_price''" by code_simp
  have b: "extract_symbol_robust ''prices'' = None" by code_simp
  have c: "decide_tool ''yesterday'' = Some ''get_historical_data''" by code_simp
  have d: "extract_symbol_robust ''yesterday'' = None" by code_simp
  from no_symbol_prompt [OF a b, of demo_world] no_symbol_prompt [OF c d, of demo_world]
  show ?thesis by simp
qed

section \<open>The stoplist\<close>




section \<open>Messages that match nothing\<close>




section \<open>The fallback on a rate limit\<close>

lemma primary_handler:
  assumes "rate_limited e"
  shows "try_except (bind_io (perform (Sleep 2) (Inr ())) (\<lambda>_. bind_io (perform c (Inl e)) f))
           (\<lambda>e. if rate_limited e then fb else other e)
         = ([Sleep 2, c] @ fst fb, snd fb)"
  using assms
  by (cases fb) (simp add: try_except_def bind_io_def perform_def)

lemma fallback_price_own_text:
  "snd (get_stock_price_alpha_vantage w symbol)
     \<noteq> Inr (''Error fetching price for '' @ symbol @ '': '' @ str e)"
  by (auto simp: get_stock_price_alpha_vantage_def with_api_key_def try_except_def bind_io_def
        perform_def return_io_def Let_def split: sum.splits option.splits)

lemma fallback_info_own_text:
  "snd (get_stock_info_alpha_vantage w symbol)
     \<noteq> Inr (''Error fetching info for '' @ symbol @ '': '' @ str e)"
  by (auto simp: get_stock_info_alpha_vantage_def with_api_key_def try_except_def bind_io_def
        perform_def return_io_def Let_def split: sum.splits option.splits)

lemma fallback_historical_own_text:
  "snd (get_historical_data_alpha_vantage w symbol period)
     \<noteq> Inr (''Error fetching historical data for '' @ symbol @ '': '' @ str e)"
  by (auto simp: get_historical_data_alpha_vantage_def with_api_key_def try_except_def
        bind_io_def perform_def return_io_def Let_def
        split: sum.splits option.splits list.splits)

lemma fallback_average_own_text:
  "snd (calculate_average_price_alpha_vantage w symbol days)
     \<noteq> Inr (''Error calculating average for '' @ symbol @ '': '' @ str e)"
  by (auto simp: calculate_average_price_alpha_vantage_def with_api_key_def try_except_def
        bind_io_def perform_def return_io_def Let_def split: sum.splits option.splits)

lemma fallback_crypto_own_text:
  "snd (get_crypto_price_alpha_vantage w symbol)
     \<noteq> Inr (''Error fetching crypto price for '' @ symbol @ '': '' @ str e)"
  by (auto simp: get_crypto_price_alpha_vantage_def with_api_key_def try_except_def bind_io_def
        perform_def return_io_def Let_def split: sum.splits option.splits)

text \<open>
  Claim C2. When the call to Yahoo Finance of a capability raises an exception whose text
  contains \<open>429\<close> or \<open>Too Many Requests\<close>, the capability returns what its Alpha
  Vantage fallback returns, after the two calls of the primary: the result is the
  fallback's own text (its success text, or its own text for a missing key, missing data
  or an error of its own, by the lemmas on the fallbacks above), and the text of the
  primary's exception is no part of it.
\<close>

theorem rate_limit_falls_back:
  assumes "rate_limited e"
  shows "(yf_info w (upper symbol) = Inl e \<longrightarrow>
            get_stock_price w symbol
              = ([Sleep 2, YfInfo (upper symbol)] @ fst (get_stock_price_alpha_vantage w symbol),
                 snd (get_stock_price_alpha_vantage w symbol))
            \<and> snd (get_stock_price w symbol)
                 \<noteq> Inr (''Error fetching price for '' @ symbol @ '': '' @ str e)
            \<and> get_stock_info w symbol
              = ([Sleep 2, YfInfo (upper symbol)] @ fst (get_stock_info_alpha_vantage w symbol),
                 snd (get_stock_info_alpha_vantage w symbol))
            \<and> snd (get_stock_info w symbol)
                 \<noteq> Inr (''Error fetching info for '' @ symbol @ '': '' @ str e))
       \<and> (yf_history w (upper symbol) period = Inl e \<longrightarrow>
            get_historical_data w symbol period
              = ([Sleep 2, YfHistory (upper symbol) period]
                   @ fst (get_historical_data_alpha_vantage w symbol period),
                 snd (get_historical_data_alpha_vantage w symbol period))
            \<and> snd (get_historical_data w symbol period)
                 \<noteq> Inr (''Error fetching historical data for '' @ symbol @ '': '' @ str e))
       \<and> (yf_history w (upper symbol) (show_int days @ ''d'') = Inl e \<longrightarrow>
            calculate_average_price w symbol days
              = ([Sleep 2, YfHistory (upper symbol) (show_int days @ ''d'')]
                   @ fst (calculate_average_price_alpha_vantage w symbol days),
                 snd (calculate_average_price_alpha_vantage w symbol days))
            \<and> snd (calculate_average_price w symbol days)
                 \<noteq> Inr (''Error calculating average for '' @ symbol @ '': '' @ str e))
       \<and> (yf_info w (upper symbol @ ''-USD'') = Inl e \<longrightarrow>
            get_crypto_price w symbol
              = ([Sleep 2, YfInfo (upper symbol @ ''-USD'')]
                   @ fst (get_crypto_price_alpha_vantage w symbol),
                 snd (get_crypto_price_alpha_vantage w symbol))
            \<and> snd (get_crypto_price w symbol)
                 \<noteq> Inr (''Error fetching crypto price for '' @ symbol @ '': '' @ str e))"
proof -
  have price: "get_stock_price w symbol
      = ([Sleep 2, YfInfo (upper symbol)] @ fst (get_stock_price_alpha_vantage w symbol),
         snd (get_stock_price_alpha_vantage w symbol))"
    if p: "yf_info w (upper symbol) = Inl e"
    unfolding get_stock_price_def p by (rule primary_handler [OF assms])
  have info: "get_stock_info w symbol
      = ([Sleep 2, YfInfo (upper symbol)] @ fst (get_stock_info_alpha_vantage w symbol),
         snd (get_stock_info_alpha_vantage w symbol))"
    if p: "yf_info w (upper symbol) = Inl e"
    unfolding get_stock_info_def p by (rule primary_handler [OF assms])
  have hist: "get_historical_data w symbol period
      = ([Sleep 2, YfHistory (upper symbol) period]
           @ fst (get_historical_data_alpha_vantage w symbol period),
         snd (get_historical_data_alpha_vantage w symbol period))"
    if p: "yf_history w (upper symbol) period = Inl e"
    unfolding get_historical_data_def p by (rule primary_handler [OF assms])
  have avg: "calculate_average_price w symbol days
      = ([Sleep 2, YfHistory (upper symbol) (show_int days @ ''d'')]
           @ fst (calculate_average_price_alpha_vantage w symbol days),
         snd (calculate_average_price_alpha_vantage w symbol days))"
    if p: "yf_history w (upper symbol) (show_int days @ ''d'') = Inl e"
    unfolding calculate_average_price_def Let_def p by (rule primary_handler [OF assms])
  have crypto: "get_crypto_price w symbol
      = ([Sleep 2, YfInfo (upper symbol @ ''-USD'')]
           @ fst (get_crypto_price_alpha_vantage w symbol),
         snd (get_crypto_price_alpha_vantage w symbol))"
    if p: "yf_info w (upper symbol @ ''-USD'') = Inl e"
    unfolding get_crypto_price_def Let_def p by (rule primary_handler [OF assms])
  show ?thesis
  proof (intro conjI impI)
    assume p: "yf_info w (upper symbol) = Inl e"
    show "get_stock_price w symbol
        = ([Sleep 2, YfInfo (upper symbol)] @ fst (get_stock_price_alpha_vantage w symbol),
           snd (get_stock_price_alpha_vantage w symbol))"
      by (rule price [OF p])
    show "snd (get_stock_price w symbol)
        \<noteq> Inr (''Error fetching price for '' @ symbol @ '': '' @ str e)"
      unfolding price [OF p] snd_conv by (rule fallback_price_own_text)
    show "get_stock_info w symbol
        = ([Sleep 2, YfInfo (upper symbol)] @ fst (get_stock_info_alpha_vantage w symbol),
           snd (get_stock_info_alpha_vantage w symbol))"
      by (rule info [OF p])
    show "snd (get_stock_info w symbol)
        \<noteq> Inr (''Error fetching info for '' @ symbol @ '': '' @ str e)"
      unfolding info [OF p] snd_conv by (rule fallback_info_own_text)
  next
    assume p: "yf_history w (upper symbol) period = Inl e"
    show "get_historical_data w symbol period
        = ([Sleep 2, YfHistory (upper symbol) period]
             @ fst (get_historical_data_alpha_vantage w symbol period),
           snd (get_historical_data_alpha_vantage w symbol period))"
      by (rule hist [OF p])
    show "snd (get_historical_data w symbol period)
        \<noteq> Inr (''Error fetching historical data for '' @ symbol @ '': '' @ str e)"
      unfolding hist [OF p] snd_conv by (rule fallback_historical_own_text)
  next
    assume p: "yf_history w (upper symbol) (show_int days @ ''d'') = Inl e"
    show "calculate_average_price w symbol days
        = ([Sleep 2, YfHistory (upper symbol) (show_int days @ ''d'')]
             @ fst (calculate_average_price_alpha_vantage w symbol days),
           snd (calculate_average_price_alpha_vantage w symbol days))"
      by (rule avg [OF p])
    show "snd (calculate_average_price w symbol days)
        \<noteq> Inr (''Error calculating average for '' @ symbol @ '': '' @ str e)"
      unfolding avg [OF p] snd_conv by (rule fallback_average_own_text)
  next
    assume p: "yf_info w (upper symbol @ ''-USD'') = Inl e"
    show "get_crypto_price w symbol
        = ([Sleep 2, YfInfo (upper symbol @ ''-USD'')]
             @ fst (get_crypto_price_alpha_vantage w symbol),
           snd (get_crypto_price_alpha_vantage w symbol))"
      by (rule crypto [OF p])
    show "snd (get_crypto_price w symbol)
        \<noteq> Inr (''Error fetching crypto price for '' @ symbol @ '': '' @ str e)"
      unfolding crypto [OF p] snd_conv by (rule fallback_crypto_own_text)
  qed
qed

theorem rate_limit_falls_back_witness:
  "rate_limited too_many
   \<and> get_stock_price demo_world ''aapl''
       = ([Sleep 2, YfInfo ''AAPL'', LoadEnvFile,
           HttpGet ''https://www.alphavantage.co/query?function=GLOBAL_QUOTE&symbol=aapl&apikey=demo''],
          Inr ''Current price of AAPL (Alpha Vantage): $189.50'')
   \<and> get_crypto_price demo_world ''btc''
       = ([Sleep 2, YfInfo ''BTC-USD'', LoadEnvFile,
           HttpGet ''https://www.alphavantage.co/query?function=CURRENCY_EXCHANGE_RATE&from_currency=BTC&to_currency=USD&apikey=demo''],
          Inr ''Error fetching crypto price from Alpha Vantage for btc: 429 from the fallback'')"
proof -
  have r: "rate_limited too_many" by code_simp
  have u: "upper ''aapl'' = ''AAPL''" "upper ''btc'' = ''BTC''" by code_simp+
  have p: "yf_info demo_world (upper ''aapl'') = Inl too_many"
    by (simp add: u demo_world_def)
  have q: "yf_info demo_world (upper ''btc'' @ ''-USD'') = Inl too_many"
    by (simp add: u demo_world_def)
  have f: "get_stock_price_alpha_vantage demo_world ''aapl''
      = ([LoadEnvFile,
          HttpGet ''https://www.alphavantage.co/query?function=GLOBAL_QUOTE&symbol=aapl&apikey=demo''],
         Inr ''Current price of AAPL (Alpha Vantage): $189.50'')"
    by code_simp
  have g: "get_crypto_price_alpha_vantage demo_world ''btc''
      = ([LoadEnvFile,
          HttpGet ''https://www.alphavantage.co/query?function=CURRENCY_EXCHANGE_RATE&from_currency=BTC&to_currency=USD&apikey=demo''],
         Inr ''Error fetching crypto price from Alpha Vantage for btc: 429 from the fallback'')"
    by code_simp
  note t = rate_limit_falls_back [OF r, of demo_world "''aapl''", THEN conjunct1, rule_format, OF p]
  note c = rate_limit_falls_back [OF r, of demo_world "''btc''", THEN conjunct2, THEN conjunct2,
      THEN conjunct2, rule_format, OF q]
  have a: "get_stock_price demo_world ''aapl''
      = ([Sleep 2, YfInfo (upper ''aapl'')] @ fst (get_stock_price_alpha_vantage demo_world ''aapl''),
         snd (get_stock_price_alpha_vantage demo_world ''aapl''))"
    by (rule t [THEN conjunct1])
  have b: "get_crypto_price demo_world ''btc''
      = ([Sleep 2, YfInfo (upper ''btc'' @ ''-USD'')] @ fst (get_crypto_price_alpha_vantage demo_world ''btc''),
         snd (get_crypto_price_alpha_vantage demo_world ''btc''))"
    by (rule c [THEN conjunct1])
  show ?thesis using r a b by (simp add: f g u)
qed

section \<open>The percentage scenario\<close>

text \<open>
  Claim C4, on the code. The message \<open>What's 15% of 250?\<close> is classified as a
  calculation and the extractor returns \<open>15% of 250\<close>, but that text is handed to
  \<open>eval\<close> as it is, where it is no expression: in every world \<open>chat\<close> returns the text
  of the syntax error, which does not contain \<open>37.5\<close>.
\<close>

theorem percent_of_is_not_evaluated:
  "decide_tool ''What's 15% of 250?'' = Some ''mathematical_calculation''
   \<and> extract_expression ''What's 15% of 250?'' = Some ''15% of 250''
   \<and> chat w ''What's 15% of 250?''
       = ([], Inr ''Error in calculation: invalid syntax (<string>, line 1)'')
   \<and> \<not> contains ''37.5'' ''Error in calculation: invalid syntax (<string>, line 1)''"
  by code_simp

theorem percent_of_is_not_evaluated_witness:
  "chat demo_world ''What's 15% of 250?''
     = ([], Inr ''Error in calculation: invalid syntax (<string>, line 1)'')"
  using percent_of_is_not_evaluated [of demo_world] by blast

section \<open>The change reported by the historical capability\<close>

lemma fmt2_zero: "fmt2 0 = ''0.00''"
  by code_simp

lemma change_of_equal_positive:
  "0 < x \<Longrightarrow> fmul (fdiv (fsub (Finite x) (Finite x)) (Finite x)) (Finite 100) = Finite 0"
  by (simp add: fsub_def fdiv_def fmul_def is_inf_def is_zero_def value_of_def sign_bit_def
        signed_zero_def)

text \<open>
  Claim C9 fails on a history of a single close that is not positive. With the close
  0.0 the previous close is the latest one, the quotient is zero by zero, and the report
  says \<open>nan%\<close>; with the close -5.0 the zero quotient takes the sign of its divisor and
  the report says \<open>-0.00%\<close>.
\<close>

theorem zero_close_counterexample:
  "yf_history demo_world ''MSFT'' ''1mo'' = Inr [Finite 0]
   \<and> get_historical_data demo_world ''msft'' ''1mo''
       = ([Sleep 2, YfHistory ''MSFT'' ''1mo''],
          Inr (''Historical data for MSFT (1mo):'' @ [CHR 0x0A]
               @ ''Latest Close: $0.00'' @ [CHR 0x0A]
               @ ''Previous Close: $0.00'' @ [CHR 0x0A]
               @ ''Change: nan%'' @ [CHR 0x0A]))
   \<and> yf_history demo_world ''META'' ''1mo'' = Inr [Finite (- 5)]
   \<and> get_historical_data demo_world ''meta'' ''1mo''
       = ([Sleep 2, YfHistory ''META'' ''1mo''],
          Inr (''Historical data for META (1mo):'' @ [CHR 0x0A]
               @ ''Latest Close: $-5.00'' @ [CHR 0x0A]
               @ ''Previous Close: $-5.00'' @ [CHR 0x0A]
               @ ''Change: -0.00%'' @ [CHR 0x0A]))"
  by code_simp

text \<open>
  Claim C9, amended. For every non-empty history the capability reports the latest
  close, the previous close and the change, each by the format \<open>:.2f\<close>; the change is the
  double \<open>((latest - previous) / previous) * 100\<close> of float arithmetic, the previous close
  is the last but one, and with a single data point it is the latest close. With a single
  data point that is positive the change reads \<open>0.00\<close>.
\<close>

theorem historical_change:
  assumes "yf_history w (upper symbol) period = Inr closes"
    and "closes \<noteq> []"
  shows "get_historical_data w symbol period
           = ([Sleep 2, YfHistory (upper symbol) period],
              Inr (''Historical data for '' @ upper symbol @ '' ('' @ period @ ''):'' @ [CHR 0x0A]
                @ ''Latest Close: $'' @ fmt2_double (latest_price closes) @ [CHR 0x0A]
                @ ''Previous Close: $'' @ fmt2_double (previous_price closes) @ [CHR 0x0A]
                @ ''Change: ''
                @ fmt2_double
                    (fmul (fdiv (fsub (latest_price closes) (previous_price closes))
                             (previous_price closes)) (Finite 100))
                @ ''%'' @ [CHR 0x0A]))
       \<and> latest_price closes = last closes
       \<and> (1 < length closes \<longrightarrow> previous_price closes = closes ! (length closes - 2))
       \<and> (length closes = 1 \<longrightarrow> previous_price closes = last closes)
       \<and> (\<forall>x. closes = [Finite x] \<and> 0 < x \<longrightarrow>
             fmt2_double
               (fmul (fdiv (fsub (latest_price closes) (previous_price closes))
                        (previous_price closes)) (Finite 100)) = ''0.00'')"
proof -
  have g: "get_historical_data w symbol period
      = ([Sleep 2, YfHistory (upper symbol) period], Inr (historical_report symbol period closes))"
    using assms
    by (simp add: get_historical_data_def try_except_def bind_io_def perform_def return_io_def)
  have r: "historical_report symbol period closes
      = ''Historical data for '' @ upper symbol @ '' ('' @ period @ ''):'' @ [CHR 0x0A]
          @ ''Latest Close: $'' @ fmt2_double (latest_price closes) @ [CHR 0x0A]
          @ ''Previous Close: $'' @ fmt2_double (previous_price closes) @ [CHR 0x0A]
          @ ''Change: ''
          @ fmt2_double
              (fmul (fdiv (fsub (latest_price closes) (previous_price closes))
                       (previous_price closes)) (Finite 100))
          @ ''%'' @ [CHR 0x0A]"
    unfolding historical_report_def change_text_def np_change_percent_def ..
  have lat: "latest_price closes = last closes"
    by (simp add: latest_price_def)
  have m: "1 < length closes \<longrightarrow> previous_price closes = closes ! (length closes - 2)"
    by (simp add: previous_price_def)
  have one: "length closes = 1 \<longrightarrow> previous_price closes = last closes"
    by (simp add: previous_price_def latest_price_def)
  have pos: "\<forall>x. closes = [Finite x] \<and> 0 < x \<longrightarrow>
      fmt2_double
        (fmul (fdiv (fsub (latest_price closes) (previous_price closes))
                 (previous_price closes)) (Finite 100)) = ''0.00''"
    by (auto simp: latest_price_def previous_price_def change_of_equal_positive fmt2_double_def
          fmt2_zero)
  from g [unfolded r] lat m one pos show ?thesis by blast
qed

theorem historical_change_witness:
  "get_historical_data demo_world ''tsla'' ''1mo''
     = ([Sleep 2, YfHistory ''TSLA'' ''1mo''],
        Inr (''Historical data for '' @ ''TSLA'' @ '' ('' @ ''1mo'' @ ''):'' @ [CHR 0x0A]
             @ ''Latest Close: $'' @ ''113.62'' @ [CHR 0x0A]
             @ ''Previous Close: $'' @ ''100.00'' @ [CHR 0x0A]
             @ ''Change: '' @ ''13.63'' @ ''%'' @ [CHR 0x0A]))
   \<and> get_historical_data demo_world ''nvda'' ''1mo''
     = ([Sleep 2, YfHistory ''NVDA'' ''1mo''],
        Inr (''Historical data for '' @ ''NVDA'' @ '' ('' @ ''1mo'' @ ''):'' @ [CHR 0x0A]
             @ ''Latest Close: $'' @ ''120.00'' @ [CHR 0x0A]
             @ ''Previous Close: $'' @ ''120.00'' @ [CHR 0x0A]
             @ ''Change: '' @ ''0.00'' @ ''%'' @ [CHR 0x0A]))"
proof -
  have u: "upper ''tsla'' = ''TSLA''" "upper ''nvda'' = ''NVDA''" by code_simp+
  have a: "yf_history demo_world (upper ''tsla'') ''1mo'' = Inr [Finite 100, Finite (909 / 8)]"
    by (simp add: u demo_world_def)
  have b: "yf_history demo_world (upper ''nvda'') ''1mo'' = Inr [Finite 120]"
    by (simp add: u demo_world_def)
  have n: "[Finite 100, Finite (909 / 8)] \<noteq> []" "[Finite 120] \<noteq> []" by simp_all
  have l: "latest_price [Finite 100, Finite (909 / 8)] = Finite (909 / 8)"
    "previous_price [Finite 100, Finite (909 / 8)] = Finite 100"
    "latest_price [Finite 120] = Finite 120" "previous_price [Finite 120] = Finite 120"
    by (simp_all add: latest_price_def previous_price_def)
  have f: "fmt2_double (Finite (909 / 8)) = ''113.62''" "fmt2_double (Finite 100) = ''100.00''"
    "fmt2_double (Finite 120) = ''120.00''"
    "fmt2_double (fmul (fdiv (fsub (Finite (909 / 8)) (Finite 100)) (Finite 100)) (Finite 100))
       = ''13.63''"
    "fmt2_double (fmul (fdiv (fsub (Finite 120) (Finite 120)) (Finite 120)) (Finite 100))
       = ''0.00''"
    by code_simp+
  note t = historical_change [OF a n(1), unfolded l f u]
  note s = historical_change [OF b n(2), unfolded l f u]
  from t s show ?thesis by blast
qed

section \<open>Keywords and the patterns that hold them\<close>








lemma code_char_of: "n < 256 \<Longrightarrow> code (char_of n) = n"
  by (simp add: code_def)

lemma code_lower_char:
  "code (lower_char c) =
     (if (65 \<le> code c \<and> code c \<le> 90) \<or> (192 \<le> code c \<and> code c \<le> 222 \<and> code c \<noteq> 215)
      then code c + 32 else code c)"
  by (auto simp: lower_char_def code_char_of)





section \<open>The detailed-info stage\<close>




section \<open>Arithmetic shapes come first\<close>

lemma is_digit_lower: "is_digit (lower_char x) = is_digit x"
  by (auto simp: is_digit_def code_lower_char)

lemma is_space_lower: "is_space (lower_char x) = is_space x"
  by (auto simp: is_space_def code_lower_char)

lemma lower_char_fixed:
  "\<not> (65 \<le> code a \<and> code a \<le> 90) \<Longrightarrow> \<not> (192 \<le> code a \<and> code a \<le> 222) \<Longrightarrow> lower_char a = a"
  by (auto simp: lower_char_def)

lemma run_lower: "(\<forall>x. in_class c (lower_char x) = in_class c x) \<Longrightarrow> run c (lower s) = run c s"
  by (simp add: run_def lower_def takeWhile_map comp_def)

lemma run_le: "run c s \<le> length s"
  by (simp add: run_def length_takeWhile_le)

lemma descend_lower:
  assumes k: "\<And>pv pv' t. k pv t \<noteq> None \<Longrightarrow> k' pv' (lower t) \<noteq> None"
  shows "n \<le> length s \<Longrightarrow> descend k lo n prev s \<noteq> None
           \<Longrightarrow> descend k' lo n prev' (lower s) \<noteq> None"
proof (induction n)
  case 0
  then show ?case using k by (auto split: if_splits)
next
  case (Suc n)
  from Suc.prems(2) have lo: "\<not> Suc n < lo" by (auto split: if_splits)
  show ?case
  proof (cases "k (Some (s ! n)) (drop (Suc n) s)")
    case None
    with Suc.prems lo have "descend k lo n prev s \<noteq> None" by simp
    with Suc have "descend k' lo n prev' (lower s) \<noteq> None" by simp
    with lo show ?thesis by (simp split: option.splits)
  next
    case (Some m)
    then have "k (Some (s ! n)) (drop (Suc n) s) \<noteq> None" by simp
    then have "k' (Some (lower s ! n)) (lower (drop (Suc n) s)) \<noteq> None" by (rule k)
    then have "k' (Some (lower s ! n)) (drop (Suc n) (lower s)) \<noteq> None"
      by (simp add: lower_def drop_map)
    with lo show ?thesis by (auto split: option.splits)
  qed
qed

lemma match_here_lower:
  "list_all lower_safe ps \<Longrightarrow> match_here ps prev s \<noteq> None
     \<Longrightarrow> match_here ps prev' (lower s) \<noteq> None"
proof (induction ps arbitrary: prev prev' s)
  case Nil
  show ?case by simp
next
  case (Cons p ps)
  have k: "\<And>pv pv' t. match_here ps pv t \<noteq> None \<Longrightarrow> match_here ps pv' (lower t) \<noteq> None"
    using Cons.IH Cons.prems(1) by simp
  note d = descend_lower [of "match_here ps" "match_here ps", OF k]
  show ?case
  proof (cases p)
    case (One c)
    with Cons.prems(1) have fwd: "\<And>x. in_class c x \<Longrightarrow> in_class c (lower_char x)"
      by (simp add: lower_safe_def)
    from Cons.prems(2) One
    have m: "descend (match_here ps) 1 (min 1 (run c s)) prev s \<noteq> None" by simp
    have "run c s \<noteq> 0"
    proof
      assume "run c s = 0"
      with m show False by simp
    qed
    then obtain x xs where s: "s = x # xs" and x: "in_class c x"
      by (cases s) (auto simp: run_def split: if_splits)
    have r: "min 1 (run c s) = 1" "min 1 (run c (lower s)) = 1"
      using s x fwd [OF x] by (simp_all add: run_def lower_def)
    have "descend (match_here ps) 1 1 prev' (lower s) \<noteq> None"
      using m r s by (intro d) auto
    with One r show ?thesis by simp
  next
    case (Star c)
    with Cons.prems(1) have b: "\<forall>x. in_class c (lower_char x) = in_class c x"
      by (simp add: lower_safe_def)
    from Cons.prems(2) Star
    have "descend (match_here ps) 0 (run c s) prev s \<noteq> None" by simp
    then have "descend (match_here ps) 0 (run c s) prev' (lower s) \<noteq> None"
      by (intro d) (auto simp: run_le)
    with Star show ?thesis by (simp add: run_lower [OF b])
  next
    case (Plus c)
    with Cons.prems(1) have b: "\<forall>x. in_class c (lower_char x) = in_class c x"
      by (simp add: lower_safe_def)
    from Cons.prems(2) Plus
    have "descend (match_here ps) 1 (run c s) prev s \<noteq> None" by simp
    then have "descend (match_here ps) 1 (run c s) prev' (lower s) \<noteq> None"
      by (intro d) (auto simp: run_le)
    with Plus show ?thesis by (simp add: run_lower [OF b])
  next
    case (Between c lo hi)
    with Cons.prems(1) have b: "\<forall>x. in_class c (lower_char x) = in_class c x"
      by (simp add: lower_safe_def)
    have le: "min hi (run c s) \<le> length s"
      using run_le [of c s] by simp
    from Cons.prems(2) Between
    have "descend (match_here ps) lo (min hi (run c s)) prev s \<noteq> None" by simp
    then have "descend (match_here ps) lo (min hi (run c s)) prev' (lower s) \<noteq> None"
      using le by (intro d) auto
    with Between show ?thesis by (simp add: run_lower [OF b])
  next
    case WordBoundary
    with Cons.prems(1) show ?thesis by (simp add: lower_safe_def)
  qed
qed

lemma match_at_lower:
  "list_all (list_all lower_safe) r \<Longrightarrow> match_at r prev s \<noteq> None
     \<Longrightarrow> match_at r prev' (lower s) \<noteq> None"
proof (induction r)
  case Nil
  then show ?case by simp
next
  case (Cons a r)
  show ?case
  proof (cases "match_here a prev s")
    case None
    with Cons have "match_at r prev' (lower s) \<noteq> None" by simp
    then show ?thesis by (simp split: option.splits)
  next
    case (Some n)
    then have "match_here a prev s \<noteq> None" by simp
    with Cons.prems(1) have "match_here a prev' (lower s) \<noteq> None"
      by (intro match_here_lower) auto
    then show ?thesis by (auto split: option.splits)
  qed
qed

lemma search_from_lower:
  "list_all (list_all lower_safe) r \<Longrightarrow> search_from r prev s \<Longrightarrow> search_from r prev' (lower s)"
proof (induction s arbitrary: prev prev')
  case Nil
  then have "match_at r prev [] \<noteq> None" by simp
  with Nil.prems(1) have "match_at r prev' (lower []) \<noteq> None" by (rule match_at_lower)
  then show ?case by (simp add: lower_def)
next
  case (Cons x xs)
  show ?case
  proof (cases "match_at r prev (x # xs) \<noteq> None")
    case True
    with Cons.prems(1) have "match_at r prev' (lower (x # xs)) \<noteq> None" by (rule match_at_lower)
    then show ?thesis by (simp add: lower_def)
  next
    case False
    with Cons.prems have "search_from r (Some x) xs" by simp
    with Cons.prems(1) have "search_from r (Some (lower_char x)) (lower xs)" by (rule Cons.IH)
    then show ?thesis by (simp add: lower_def)
  qed
qed

lemma any_match_lower:
  "list_all (list_all (list_all lower_safe)) ps \<Longrightarrow> any_match ps s \<Longrightarrow> any_match ps (lower s)"
proof -
  assume safe: "list_all (list_all (list_all lower_safe)) ps" and "any_match ps s"
  then obtain p where p: "p \<in> set ps" and m: "search_from p None s"
    by (auto simp: any_match_def list_ex_iff re_search_def)
  from safe p have "list_all (list_all lower_safe) p" by (simp add: list_all_iff)
  then have "search_from p None (lower s)" using m by (rule search_from_lower)
  with p show ?thesis by (auto simp: any_match_def list_ex_iff re_search_def)
qed

lemma math_patterns_safe: "list_all (list_all (list_all lower_safe)) math_patterns"
  by (simp add: math_patterns_def lit_def lower_safe_def is_digit_lower is_space_lower
        lower_char_fixed code_def)

text \<open>
  Claim C3. A message that matches one of the four arithmetic shape patterns, as typed
  or in lower case, is classified \<open>mathematical_calculation\<close>, never
  \<open>get_stock_price\<close>, whatever keywords of the later stages it holds: the shapes are
  tested first, on the lowered message, and lowering a text keeps every match of them.
\<close>

theorem arithmetic_shape_is_calculation:
  assumes "any_match math_patterns message \<or> any_match math_patterns (lower message)"
  shows "decide_tool message = Some ''mathematical_calculation''
       \<and> decide_tool message \<noteq> Some ''get_stock_price''"
proof -
  have "any_match math_patterns (lower message)"
    using assms any_match_lower [OF math_patterns_safe] by blast
  then show ?thesis by (simp add: decide_tool_def Let_def)
qed

theorem arithmetic_shape_is_calculation_witness:
  "any_match price_patterns (lower ''Price of SQRT (16) Apple shares'')
   \<and> decide_tool ''Price of SQRT (16) Apple shares'' = Some ''mathematical_calculation''
   \<and> decide_tool ''search news: value of 15 % of 250'' = Some ''mathematical_calculation''"
proof -
  have a: "any_match math_patterns (lower ''Price of SQRT (16) Apple shares'')" by code_simp
  have b: "any_match math_patterns ''search news: value of 15 % of 250''" by code_simp
  have c: "any_match price_patterns (lower ''Price of SQRT (16) Apple shares'')" by code_simp
  from arithmetic_shape_is_calculation [of "''Price of SQRT (16) Apple shares''"] a
    arithmetic_shape_is_calculation [of "''search news: value of 15 % of 250''"] b c
  show ?thesis by blast
qed

end
